theory Spec2Isabelle
  imports Main
begin

section \<open>Python values and the primitives the module uses\<close>

text \<open>
  The module \<open>adafruit_hue.py\<close> handles dynamically typed values: the arguments of the
  methods and the parsed JSON the transport returns. \<open>pyval\<close> holds the JSON shaped
  values (without floating point numbers, which no method of the module inspects) and
  \<open>POpaque\<close>, any other object (a module, a function, a class), named by a label.
  A dictionary is an association list; the first binding of a key is the one in force.
\<close>

datatype pyval =
    PNone
  | PBool bool
  | PInt int
  | PStr string
  | PList "pyval list"
  | PDict "(string \<times> pyval) list"
  | POpaque string

text \<open>
  An exception is its class name and a text. For the exceptions the module raises
  itself the text is the message of the source. For the exceptions the interpreter
  raises (\<open>AttributeError\<close>, \<open>NameError\<close>, \<open>KeyError\<close>, \<open>IndexError\<close>,
  \<open>TypeError\<close> of an operator) the text records the offending name, key or operation,
  not the interpreter's wording.
\<close>

datatype exn = Exn (exc_class: string) (exc_info: string)

text \<open>
  \<open>str(v)\<close> and \<open>'{}'.format(v)\<close> give \<open>v\<close> itself when \<open>v\<close> is a string. For every
  other value the text is the interpreter's; it is a parameter \<open>sf\<close> of the model.
\<close>

type_synonym str_fn = "pyval \<Rightarrow> string"

definition py_str :: "str_fn \<Rightarrow> pyval \<Rightarrow> string" where
  "py_str sf v = (case v of PStr s \<Rightarrow> s | _ \<Rightarrow> sf v)"

text \<open>Truth value of an object in a condition.\<close>

fun py_truthy :: "pyval \<Rightarrow> bool" where
  "py_truthy PNone = False"
| "py_truthy (PBool b) = b"
| "py_truthy (PInt i) = (i \<noteq> 0)"
| "py_truthy (PStr s) = (s \<noteq> [])"
| "py_truthy (PList xs) = (xs \<noteq> [])"
| "py_truthy (PDict kvs) = (kvs \<noteq> [])"
| "py_truthy (POpaque l) = True"

text \<open>\<open>v[0]\<close>: the keys of a dictionary here are strings, so the key \<open>0\<close> is never found.\<close>

fun py_getitem_0 :: "pyval \<Rightarrow> exn + pyval" where
  "py_getitem_0 (PList []) = Inl (Exn ''IndexError'' ''list index out of range'')"
| "py_getitem_0 (PList (x # xs)) = Inr x"
| "py_getitem_0 (PStr []) = Inl (Exn ''IndexError'' ''string index out of range'')"
| "py_getitem_0 (PStr (c # cs)) = Inr (PStr [c])"
| "py_getitem_0 (PDict kvs) = Inl (Exn ''KeyError'' ''0'')"
| "py_getitem_0 v = Inl (Exn ''TypeError'' ''object is not subscriptable'')"

text \<open>\<open>v[k]\<close> for a string key \<open>k\<close>.\<close>

fun py_getitem_key :: "pyval \<Rightarrow> string \<Rightarrow> exn + pyval" where
  "py_getitem_key (PDict kvs) k =
     (case map_of kvs k of None \<Rightarrow> Inl (Exn ''KeyError'' k) | Some v \<Rightarrow> Inr v)"
| "py_getitem_key (PList xs) k = Inl (Exn ''TypeError'' ''list indices must be integers'')"
| "py_getitem_key (PStr s) k = Inl (Exn ''TypeError'' ''string indices must be integers'')"
| "py_getitem_key v k = Inl (Exn ''TypeError'' ''object is not subscriptable'')"

text \<open>\<open>v.get(k)\<close>: only a dictionary has the method; a missing key gives \<open>None\<close>.\<close>

fun py_dict_get :: "pyval \<Rightarrow> string \<Rightarrow> exn + pyval" where
  "py_dict_get (PDict kvs) k =
     (case map_of kvs k of None \<Rightarrow> Inr PNone | Some v \<Rightarrow> Inr v)"
| "py_dict_get v k = Inl (Exn ''AttributeError'' ''get'')"

text \<open>\<open>needle in haystack\<close> on strings.\<close>

fun starts_with :: "string \<Rightarrow> string \<Rightarrow> bool" where
  "starts_with s [] = True"
| "starts_with [] (p # ps) = False"
| "starts_with (c # cs) (p # ps) = (c = p \<and> starts_with cs ps)"

fun str_in :: "string \<Rightarrow> string \<Rightarrow> bool" where
  "str_in p [] = (p = [])"
| "str_in p (c # cs) = (starts_with (c # cs) p \<or> str_in p cs)"

text \<open>
  The names bound at module level when a method runs: the two imports, the two
  dunder constants and the class. A name that is not among them (and is no builtin)
  raises \<open>NameError\<close> when it is read.
\<close>

definition module_globals :: "(string \<times> pyval) list" where
  "module_globals =
     [(''time'', POpaque ''module time''),
      (''randint'', POpaque ''function randint''),
      (''__version__'', PStr ''0.0.0-auto.0''),
      (''__repo__'', PStr ''https://github.com/adafruit/Adafruit_CircuitPython_Hue.git''),
      (''Bridge'', POpaque ''class Bridge'')]"

definition load_global :: "string \<Rightarrow> exn + pyval" where
  "load_global n =
     (case map_of module_globals n of
        None \<Rightarrow> Inl (Exn ''NameError'' n)
      | Some v \<Rightarrow> Inr v)"

section \<open>The transport and the trace of effects\<close>

text \<open>
  The effects of the module are the HTTP requests it hands to the WiFi manager, the
  calls of \<open>time.sleep\<close> and one \<open>print\<close>. They are recorded, in order, in a trace.
  \<open>Request m url None\<close> is a call without the \<open>json\<close> keyword, \<open>Request m url (Some d)\<close>
  one with \<open>json=d\<close>.
\<close>

datatype http_method = GET | POST | PUT

datatype event =
    Request http_method string "pyval option"
  | Sleep int
  | Stdout string

type_synonym trace = "event list"

text \<open>
  A response object answers \<open>.json()\<close> with a value or an exception, and \<open>.close()\<close>
  with nothing or an exception.
\<close>

datatype response = Response (resp_json: "exn + pyval") (resp_close: "exn option")

text \<open>
  The WiFi manager: the text of \<open>str(type(wifi_manager))\<close>, and its answer to a request,
  which may depend on everything that happened up to and including that request.
\<close>

record wifi_manager =
  wifi_type :: string
  net :: "trace \<Rightarrow> exn + response"

definition wifi_call ::
  "wifi_manager \<Rightarrow> http_method \<Rightarrow> string \<Rightarrow> pyval option \<Rightarrow> trace \<Rightarrow> (exn + response) \<times> trace" where
  "wifi_call w m url body tr = (let tr1 = tr @ [Request m url body] in (net w tr1, tr1))"

definition is_request :: "event \<Rightarrow> bool" where
  "is_request e = (case e of Request m u b \<Rightarrow> True | _ \<Rightarrow> False)"

definition is_sleep :: "event \<Rightarrow> bool" where
  "is_sleep e = (case e of Sleep n \<Rightarrow> True | _ \<Rightarrow> False)"

definition requests :: "trace \<Rightarrow> trace" where
  "requests tr = filter is_request tr"

definition sleeps :: "trace \<Rightarrow> trace" where
  "sleeps tr = filter is_sleep tr"

section \<open>The class Bridge\<close>

text \<open>
  The attributes of a \<open>Bridge\<close> object. \<open>_wifi\<close> is assigned by the first statement of
  the constructor that does not raise, so every object has it; each other attribute
  is absent (\<open>None\<close>) until a method assigns it. The field \<open>p_x\<close> is the attribute
  \<open>_x\<close> of the source; \<open>bridge_url\<close> is the attribute of that name.
\<close>

record bridge =
  p_wifi :: wifi_manager
  p_bridge_url :: "string option"
  p_username_url :: "string option"
  p_bridge_ip :: "pyval option"
  p_username :: "pyval option"
  p_ip :: "pyval option"
  bridge_url :: "string option"

definition new_bridge :: "wifi_manager \<Rightarrow> bridge" where
  "new_bridge w =
     \<lparr>p_wifi = w, p_bridge_url = None, p_username_url = None, p_bridge_ip = None,
      p_username = None, p_ip = None, bridge_url = None\<rparr>"

definition attribute_error :: "string \<Rightarrow> exn" where
  "attribute_error a = Exn ''AttributeError'' a"

subsection \<open>The HTTP helpers\<close>

definition http_post :: "bridge \<Rightarrow> string \<Rightarrow> pyval \<Rightarrow> trace \<Rightarrow> (exn + response) \<times> trace" where
  "http_post self path data tr = wifi_call (p_wifi self) POST path (Some data) tr"

definition http_put :: "bridge \<Rightarrow> string \<Rightarrow> pyval \<Rightarrow> trace \<Rightarrow> (exn + response) \<times> trace" where
  "http_put self path data tr = wifi_call (p_wifi self) PUT path (Some data) tr"

text \<open>\<open>_get(path, data=None)\<close>: every caller in the module leaves \<open>data\<close> at its default.\<close>

definition http_get :: "bridge \<Rightarrow> string \<Rightarrow> pyval \<Rightarrow> trace \<Rightarrow> (exn + response) \<times> trace" where
  "http_get self path data tr = wifi_call (p_wifi self) GET path (Some data) tr"

text \<open>
  The three statements that end every resource method:
  \<open>resp_json = resp.json(); resp.close(); return resp_json\<close>.
\<close>

definition json_close_return :: "(exn + response) \<times> trace \<Rightarrow> (exn + pyval) \<times> trace" where
  "json_close_return rt =
     (case rt of
        (Inl e, tr) \<Rightarrow> (Inl e, tr)
      | (Inr resp, tr) \<Rightarrow>
          (case resp_json resp of
             Inl e \<Rightarrow> (Inl e, tr)
           | Inr resp_json_v \<Rightarrow>
               (case resp_close resp of
                  Some e \<Rightarrow> (Inl e, tr)
                | None \<Rightarrow> (Inr resp_json_v, tr))))"

subsection \<open>discover_bridge\<close>

definition discovery_url :: string where
  "discovery_url = ''https://discovery.meethue.com''"

definition discover_message :: string where
  "discover_message =
     ''Ensure the Philips Bridge and CircuitPython device are both on the same WiFi network.''"

definition api_url :: "str_fn \<Rightarrow> pyval \<Rightarrow> string" where
  "api_url sf ip = ''http://'' @ py_str sf ip @ ''/api''"

text \<open>The body of the \<open>try\<close> block: its value is the local \<open>bridge_ip\<close>.\<close>

definition discover_try :: "bridge \<Rightarrow> trace \<Rightarrow> (exn + pyval) \<times> trace" where
  "discover_try self tr =
     (case wifi_call (p_wifi self) GET discovery_url None tr of
        (Inl e, tr1) \<Rightarrow> (Inl e, tr1)
      | (Inr resp, tr1) \<Rightarrow>
          (case resp_json resp of
             Inl e \<Rightarrow> (Inl e, tr1)
           | Inr json_data \<Rightarrow>
               (case py_getitem_0 json_data of
                  Inl e \<Rightarrow> (Inl e, tr1)
                | Inr first \<Rightarrow>
                    (case py_getitem_key first ''internalipaddress'' of
                       Inl e \<Rightarrow> (Inl e, tr1)
                     | Inr bridge_ip \<Rightarrow>
                         (case resp_close resp of
                            Some e \<Rightarrow> (Inl e, tr1)
                          | None \<Rightarrow> (Inr bridge_ip, tr1))))))"

text \<open>The bare \<open>except\<close> turns every exception of the block into one \<open>TypeError\<close>.\<close>

definition discover_bridge :: "str_fn \<Rightarrow> bridge \<Rightarrow> trace \<Rightarrow> (exn + pyval) \<times> bridge \<times> trace" where
  "discover_bridge sf self tr =
     (case discover_try self tr of
        (Inl e, tr1) \<Rightarrow> (Inl (Exn ''TypeError'' discover_message), self, tr1)
      | (Inr bridge_ip, tr1) \<Rightarrow>
          (Inr bridge_ip,
           self\<lparr>p_ip := Some bridge_ip, bridge_url := Some (api_url sf bridge_ip)\<rparr>,
           tr1))"

subsection \<open>register_username\<close>

text \<open>
  The \<open>while\<close> loop. Its state is the locals \<open>username\<close>, \<open>connection_attempts\<close> and
  \<open>resp\<close>, the object and the trace. \<open>url\<close> is \<open>self._bridge_url\<close>, which the method
  assigns in its first statement and never again, and \<open>data\<close> the request body.
\<close>

function register_loop ::
  "str_fn \<Rightarrow> string \<Rightarrow> pyval \<Rightarrow> pyval \<Rightarrow> int \<Rightarrow> response \<Rightarrow> bridge \<Rightarrow> trace
   \<Rightarrow> (exn + pyval \<times> response) \<times> bridge \<times> trace" where
  "register_loop sf url data username connection_attempts resp self tr =
     (if username = PNone \<and> connection_attempts > 0 then
        (case http_post self url data tr of
           (Inl e, tr1) \<Rightarrow> (Inl e, self, tr1)
         | (Inr resp1, tr1) \<Rightarrow>
             (case resp_json resp1 of
                Inl e \<Rightarrow> (Inl e, self, tr1)
              | Inr body \<Rightarrow>
                  (case py_getitem_0 body of
                     Inl e \<Rightarrow> (Inl e, self, tr1)
                   | Inr json \<Rightarrow>
                       (case py_dict_get json ''success'' of
                          Inl e \<Rightarrow> (Inl e, self, tr1)
                        | Inr flag \<Rightarrow>
                            if py_truthy flag then
                              (case py_getitem_key json ''success'' of
                                 Inl e \<Rightarrow> (Inl e, self, tr1)
                               | Inr success \<Rightarrow>
                                   (case py_getitem_key success ''username'' of
                                      Inl e \<Rightarrow> (Inl e, self, tr1)
                                    | Inr u \<Rightarrow>
                                        register_loop sf url data (PStr (py_str sf u))
                                          (connection_attempts - 1) resp1
                                          (self\<lparr>p_username_url := Some (url @ ''/'' @ py_str sf u)\<rparr>)
                                          (tr1 @ [Sleep 1])))
                            else
                              register_loop sf url data username
                                (connection_attempts - 1) resp1 self (tr1 @ [Sleep 1])))))
      else (Inr (username, resp), self, tr))"
  by pat_completeness auto
termination
  by (relation "measure (\<lambda>(sf, url, data, username, n, resp, self, tr). nat n)") auto

declare register_loop.simps [simp del]

text \<open>\<open>rnd\<close> is the number \<open>randint(0,100)\<close> returns in this call.\<close>

definition pairing_body :: "str_fn \<Rightarrow> int \<Rightarrow> pyval" where
  "pairing_body sf rnd =
     PDict [(''devicetype'', PStr (''CircuitPython#pyportal'' @ py_str sf (PInt rnd)))]"

definition register_username ::
  "str_fn \<Rightarrow> int \<Rightarrow> bridge \<Rightarrow> trace \<Rightarrow> (exn + pyval) \<times> bridge \<times> trace" where
  "register_username sf rnd self tr =
     (case p_bridge_ip self of
        None \<Rightarrow> (Inl (attribute_error ''_bridge_ip''), self, tr)
      | Some ip \<Rightarrow>
          (let url = api_url sf ip;
               self1 = self\<lparr>p_bridge_url := Some url\<rparr>;
               data = pairing_body sf rnd
           in case http_post self1 url data tr of
                (Inl e, tr1) \<Rightarrow> (Inl e, self1, tr1)
              | (Inr resp, tr1) \<Rightarrow>
                  (case register_loop sf url data PNone 30 resp self1 tr1 of
                     (Inl e, self2, tr2) \<Rightarrow> (Inl e, self2, tr2)
                   | (Inr (username, resp2), self2, tr2) \<Rightarrow>
                       (case resp_close resp2 of
                          Some e \<Rightarrow> (Inl e, self2, tr2)
                        | None \<Rightarrow> (Inr username, self2, tr2)))))"

subsection \<open>The constructor\<close>

definition wifi_message :: string where
  "wifi_message = ''This library requires a WiFiManager object.''"

text \<open>
  The message of the \<open>AssertionError\<close>: the backslash at the end of a line inside the
  literal joins the next line, whose 33 leading blanks stay in the text.
\<close>

definition secrets_message :: "str_fn \<Rightarrow> pyval \<Rightarrow> pyval \<Rightarrow> string" where
  "secrets_message sf ip username =
     ''ADD THESE VALUES TO SECRETS.PY: '' @ replicate 33 (CHR '' '')
     @ [CHR 0x0A, CHR 0x09, CHR 0x22] @ ''bridge_ip'' @ [CHR 0x22] @ '':'' @ [CHR 0x22]
     @ py_str sf ip @ [CHR 0x22] @ '', '' @ replicate 33 (CHR '' '')
     @ [CHR 0x0A, CHR 0x09, CHR 0x22] @ ''username'' @ [CHR 0x22] @ '':'' @ [CHR 0x22]
     @ py_str sf username @ [CHR 0x22]"

definition accepts_wifi :: "wifi_manager \<Rightarrow> bool" where
  "accepts_wifi w =
     (str_in ''ESPSPI_WiFiManager'' (wifi_type w) \<or> str_in ''ESPAT_WiFiManager'' (wifi_type w))"

text \<open>
  \<open>Bridge(wifi_manager, bridge_ip, username)\<close>; an argument left out is \<open>PNone\<close>.
  The result is the object, or the exception that leaves the constructor.
\<close>

definition Bridge_init ::
  "str_fn \<Rightarrow> int \<Rightarrow> wifi_manager \<Rightarrow> pyval \<Rightarrow> pyval \<Rightarrow> trace \<Rightarrow> (exn + bridge) \<times> trace" where
  "Bridge_init sf rnd wifi_manager bridge_ip username tr =
     (if accepts_wifi wifi_manager then
        (let self = new_bridge wifi_manager in
         if py_truthy bridge_ip \<and> username \<noteq> PNone then
           (let url = api_url sf bridge_ip;
                self1 = self\<lparr>p_bridge_url := Some url\<rparr>
            in case username of
                 PStr u \<Rightarrow> (Inr (self1\<lparr>p_username_url := Some (url @ ''/'' @ u)\<rparr>), tr)
               | _ \<Rightarrow> (Inl (Exn ''TypeError'' ''can only concatenate str to str''), tr))
         else
           (case discover_bridge sf self tr of
              (Inl e, self1, tr1) \<Rightarrow> (Inl e, tr1)
            | (Inr ip, self1, tr1) \<Rightarrow>
                (case register_username sf rnd (self1\<lparr>p_bridge_ip := Some ip\<rparr>) tr1 of
                   (Inl e, self2, tr2) \<Rightarrow> (Inl e, tr2)
                 | (Inr name, self2, tr2) \<Rightarrow>
                     (Inl (Exn ''AssertionError'' (secrets_message sf ip name)), tr2))))
      else (Inl (Exn ''TypeError'' wifi_message), tr))"

subsection \<open>The resource methods\<close>

definition show_light_info :: "str_fn \<Rightarrow> bridge \<Rightarrow> pyval \<Rightarrow> trace \<Rightarrow> (exn + pyval) \<times> trace" where
  "show_light_info sf self light_id tr =
     (case p_username_url self of
        None \<Rightarrow> (Inl (attribute_error ''_username_url''), tr)
      | Some uu \<Rightarrow>
          json_close_return (http_get self (uu @ ''/lights/'' @ py_str sf light_id) PNone tr))"

definition set_light ::
  "str_fn \<Rightarrow> bridge \<Rightarrow> pyval \<Rightarrow> (string \<times> pyval) list \<Rightarrow> trace \<Rightarrow> (exn + pyval) \<times> trace" where
  "set_light sf self light_id kwargs tr =
     (case p_username_url self of
        None \<Rightarrow> (Inl (attribute_error ''_username_url''), tr)
      | Some uu \<Rightarrow>
          json_close_return
            (http_put self (uu @ ''/lights/'' @ py_str sf light_id @ ''/state'') (PDict kwargs) tr))"

definition get_light :: "str_fn \<Rightarrow> bridge \<Rightarrow> pyval \<Rightarrow> trace \<Rightarrow> (exn + pyval) \<times> trace" where
  "get_light sf self light_id tr =
     (case p_username_url self of
        None \<Rightarrow> (Inl (attribute_error ''_username_url''), tr)
      | Some uu \<Rightarrow>
          json_close_return (http_get self (uu @ ''/lights/'' @ py_str sf light_id) PNone tr))"

definition get_lights :: "bridge \<Rightarrow> trace \<Rightarrow> (exn + pyval) \<times> trace" where
  "get_lights self tr =
     (case p_username_url self of
        None \<Rightarrow> (Inl (attribute_error ''_username_url''), tr)
      | Some uu \<Rightarrow> json_close_return (http_get self (uu @ ''/lights'') PNone tr))"

text \<open>
  \<open>create_group\<close> builds its dictionary first; the value of the key \<open>type\<close> is the
  global name \<open>lightGroup\<close>, read before anything else happens.
\<close>

definition create_group :: "bridge \<Rightarrow> pyval \<Rightarrow> pyval \<Rightarrow> trace \<Rightarrow> (exn + pyval) \<times> trace" where
  "create_group self lights group_id tr =
     (case load_global ''lightGroup'' of
        Inl e \<Rightarrow> (Inl e, tr)
      | Inr light_group \<Rightarrow>
          (let data = PDict [(''lights'', lights), (''name'', group_id), (''type'', light_group)]
           in case p_username_url self of
                None \<Rightarrow> (Inl (attribute_error ''_username_url''), tr)
              | Some uu \<Rightarrow> json_close_return (http_post self (uu @ ''/groups'') data tr)))"

text \<open>\<open>set_group\<close> prints its keyword arguments before it builds the URL.\<close>

definition set_group ::
  "str_fn \<Rightarrow> bridge \<Rightarrow> pyval \<Rightarrow> (string \<times> pyval) list \<Rightarrow> trace \<Rightarrow> (exn + pyval) \<times> trace" where
  "set_group sf self group_id kwargs tr =
     (let tr0 = tr @ [Stdout (py_str sf (PDict kwargs))]
      in case p_username_url self of
           None \<Rightarrow> (Inl (attribute_error ''_username_url''), tr0)
         | Some uu \<Rightarrow>
             json_close_return
               (http_put self (uu @ ''/groups/'' @ py_str sf group_id @ ''/action'') (PDict kwargs) tr0))"

definition get_groups :: "bridge \<Rightarrow> trace \<Rightarrow> (exn + pyval) \<times> trace" where
  "get_groups self tr =
     (case p_username_url self of
        None \<Rightarrow> (Inl (attribute_error ''_username_url''), tr)
      | Some uu \<Rightarrow> json_close_return (http_get self (uu @ ''/groups'') PNone tr))"

text \<open>\<open>set_scene\<close> calls \<open>set_group\<close> and returns nothing.\<close>

definition set_scene :: "str_fn \<Rightarrow> bridge \<Rightarrow> pyval \<Rightarrow> pyval \<Rightarrow> trace \<Rightarrow> (exn + pyval) \<times> trace" where
  "set_scene sf self group_id scene_id tr =
     (case set_group sf self group_id [(''scene'', scene_id)] tr of
        (Inl e, tr1) \<Rightarrow> (Inl e, tr1)
      | (Inr v, tr1) \<Rightarrow> (Inr PNone, tr1))"

definition get_scenes :: "bridge \<Rightarrow> trace \<Rightarrow> (exn + pyval) \<times> trace" where
  "get_scenes self tr =
     (case p_username_url self of
        None \<Rightarrow> (Inl (attribute_error ''_username_url''), tr)
      | Some uu \<Rightarrow> json_close_return (http_get self (uu @ ''/scenes'') PNone tr))"

section \<open>Vocabulary of the specification\<close>

text \<open>
  The definitions of this section are not code of the module. They name what the
  properties below speak about: the shape of a bridge's answer to a pairing request,
  the trace of the retry loop, the class of a raised exception and the states an
  object passes through.
\<close>

text \<open>
  A pairing answer without a grant: a list whose first element is an object with no
  \<open>success\<close> entry, or with one that counts as false.
\<close>

definition pairing_refused :: "exn + response \<Rightarrow> bool" where
  "pairing_refused r =
     (case r of
        Inl e \<Rightarrow> False
      | Inr resp \<Rightarrow>
          (case resp_json resp of
             Inr (PList (PDict d # rest)) \<Rightarrow>
               \<not> py_truthy (case map_of d ''success'' of None \<Rightarrow> PNone | Some v \<Rightarrow> v)
           | _ \<Rightarrow> False))"

text \<open>
  A pairing answer that grants the username \<open>u\<close>: the first element of the list has
  an object under \<open>success\<close> with \<open>u\<close> under \<open>username\<close>.
\<close>

definition pairing_granted :: "pyval \<Rightarrow> exn + response \<Rightarrow> bool" where
  "pairing_granted u r =
     (case r of
        Inl e \<Rightarrow> False
      | Inr resp \<Rightarrow>
          (case resp_json resp of
             Inr (PList (PDict d # rest)) \<Rightarrow>
               (case map_of d ''success'' of
                  Some (PDict s) \<Rightarrow> map_of s ''username'' = Some u
                | _ \<Rightarrow> False)
           | _ \<Rightarrow> False))"

text \<open>The pairing request of \<open>register_username\<close> for the stored address \<open>ip\<close>.\<close>

definition pairing_post :: "str_fn \<Rightarrow> int \<Rightarrow> pyval \<Rightarrow> event" where
  "pairing_post sf rnd ip = Request POST (api_url sf ip) (Some (pairing_body sf rnd))"

text \<open>The trace of \<open>n\<close> rounds of the loop, each the request \<open>p\<close> and one sleep of a second.\<close>

definition rounds :: "event \<Rightarrow> nat \<Rightarrow> trace" where
  "rounds p n = concat (replicate n [p, Sleep 1])"

definition raised_class :: "exn + 'a \<Rightarrow> string option" where
  "raised_class r = (case r of Inl e \<Rightarrow> Some (exc_class e) | Inr v \<Rightarrow> None)"

text \<open>
  The usernames a constructor call is given: the argument when it is a string, none
  when it is \<open>None\<close> or any other object.
\<close>

definition provided :: "pyval \<Rightarrow> string set" where
  "provided un = (case un of PStr u \<Rightarrow> {u} | _ \<Rightarrow> {})"

text \<open>
  The usernames a call receives from the bridge: the call starts at the trace \<open>tr\<close>
  and ends at \<open>tr'\<close>, and in between it sends a POST request that the transport
  answers with a grant of the value \<open>v\<close>; the username is \<open>str(v)\<close>.
\<close>

definition granted_during :: "str_fn \<Rightarrow> wifi_manager \<Rightarrow> trace \<Rightarrow> trace \<Rightarrow> string set" where
  "granted_during sf w tr tr' =
     {py_str sf v | v a b url d.
        tr' = tr @ a @ [Request POST url (Some d)] @ b
        \<and> pairing_granted v (net w (tr @ a @ [Request POST url (Some d)]))}"

text \<open>
  The states of a \<open>Bridge\<close> object, each with the set of usernames obtained on the way
  to it: the object a constructor call returns, the object inside a constructor call
  that takes the \<open>else\<close> branch (after line 59, after the assignments of lines 66 and
  67), and every state a call of \<open>discover_bridge\<close> or \<open>register_username\<close> leaves
  behind, whether it returns or raises. The resource methods assign no attribute.
\<close>

inductive reachable :: "str_fn \<Rightarrow> string set \<Rightarrow> bridge \<Rightarrow> bool" for sf :: str_fn where
  constructed: "Bridge_init sf rnd w ip un tr = (Inr b, tr') \<Longrightarrow> reachable sf (provided un) b"
| entered: "accepts_wifi w \<Longrightarrow> reachable sf {} (new_bridge w)"
| discovered: "reachable sf U b \<Longrightarrow> discover_bridge sf b tr = (r, b', tr') \<Longrightarrow> reachable sf U b'"
| line_66: "accepts_wifi w \<Longrightarrow> discover_bridge sf (new_bridge w) tr = (Inr ip, b', tr')
           \<Longrightarrow> reachable sf {} (b'\<lparr>p_bridge_ip := Some ip\<rparr>)"
| registered: "reachable sf U b \<Longrightarrow> register_username sf rnd b tr = (r, b', tr')
           \<Longrightarrow> reachable sf (U \<union> granted_during sf (p_wifi b) tr tr') b'"
| line_67: "reachable sf U b \<Longrightarrow> register_username sf rnd b tr = (Inr name, b', tr')
           \<Longrightarrow> reachable sf (U \<union> granted_during sf (p_wifi b) tr tr')
                 (b'\<lparr>p_username := Some name\<rparr>)"

subsection \<open>Concrete transports and objects\<close>

text \<open>An interpreter's \<open>str\<close> that prints the number 7 and nothing else of interest.\<close>

definition ex_str :: str_fn where
  "ex_str v = (case v of PInt i \<Rightarrow> (if i = 7 then ''7'' else ''?'') | _ \<Rightarrow> ''?'')"

definition ex_refusal :: response where
  "ex_refusal =
     Response (Inr (PList [PDict [(''error'', PDict [(''type'', PInt 101),
        (''description'', PStr ''link button not pressed'')])]])) None"

definition ex_grant :: response where
  "ex_grant =
     Response (Inr (PList [PDict [(''success'', PDict [(''username'', PStr ''abc123'')])]])) None"

definition ex_type :: string where
  "ex_type = ''<class adafruit_esp32spi.adafruit_esp32spi_wifimanager.ESPSPI_WiFiManager>''"

text \<open>A bridge whose link button is never pressed.\<close>

definition wifi_refusing :: wifi_manager where
  "wifi_refusing = \<lparr>wifi_type = ex_type, net = (\<lambda>t. Inr ex_refusal)\<rparr>"

text \<open>A bridge that grants a username to every request.\<close>

definition wifi_granting :: wifi_manager where
  "wifi_granting = \<lparr>wifi_type = ex_type, net = (\<lambda>t. Inr ex_grant)\<rparr>"

text \<open>A bridge that grants every request; closing its response raises.\<close>

definition ex_grant_unclosable :: response where
  "ex_grant_unclosable =
     Response (Inr (PList [PDict [(''success'', PDict [(''username'', PStr ''abc123'')])]]))
       (Some (Exn ''OSError'' ''socket closed''))"

definition wifi_granting_unclosable :: wifi_manager where
  "wifi_granting_unclosable = \<lparr>wifi_type = ex_type, net = (\<lambda>t. Inr ex_grant_unclosable)\<rparr>"

text \<open>A bridge that grants from the fourth request on.\<close>

definition wifi_granting_late :: wifi_manager where
  "wifi_granting_late =
     \<lparr>wifi_type = ex_type,
      net = (\<lambda>t. if length (requests t) < 4 then Inr ex_refusal else Inr ex_grant)\<rparr>"

text \<open>A discovery service that knows no bridge, one that knows one, and no network.\<close>

definition wifi_no_bridge :: wifi_manager where
  "wifi_no_bridge = \<lparr>wifi_type = ex_type, net = (\<lambda>t. Inr (Response (Inr (PList [])) None))\<rparr>"

definition wifi_discovering :: wifi_manager where
  "wifi_discovering =
     \<lparr>wifi_type = ex_type,
      net = (\<lambda>t. Inr (Response (Inr (PList [PDict [(''id'', PStr ''001788fffe100491''),
               (''internalipaddress'', PStr ''10.0.0.5'')]])) None))\<rparr>"

definition wifi_offline :: wifi_manager where
  "wifi_offline = \<lparr>wifi_type = ex_type, net = (\<lambda>t. Inl (Exn ''OSError'' ''no route''))\<rparr>"

text \<open>
  A network with a discovery service that knows the bridge at 10.0.0.5 and a bridge
  whose link button is pressed: the first request is answered by the discovery
  service, every later one by a grant. \<open>bridge_home\<close> is the object inside the
  constructor call \<open>Bridge(wifi)\<close> on that network when \<open>register_username\<close> has
  returned.
\<close>

definition wifi_home :: wifi_manager where
  "wifi_home =
     \<lparr>wifi_type = ex_type,
      net = (\<lambda>t. if length (requests t) \<le> 1
                 then Inr (Response (Inr (PList [PDict [(''internalipaddress'', PStr ''10.0.0.5'')]])) None)
                 else Inr ex_grant)\<rparr>"

definition bridge_home :: bridge where
  "bridge_home =
     (new_bridge wifi_home)\<lparr>p_ip := Some (PStr ''10.0.0.5''),
        bridge_url := Some ''http://10.0.0.5/api'',
        p_bridge_ip := Some (PStr ''10.0.0.5''),
        p_bridge_url := Some ''http://10.0.0.5/api'',
        p_username_url := Some ''http://10.0.0.5/api/abc123''\<rparr>"

definition trace_home :: trace where
  "trace_home =
     [Request GET discovery_url None,
      pairing_post ex_str 7 (PStr ''10.0.0.5''),
      pairing_post ex_str 7 (PStr ''10.0.0.5''), Sleep 1]"

text \<open>An object that is no WiFi manager.\<close>

definition wifi_other :: wifi_manager where
  "wifi_other = \<lparr>wifi_type = ''<class dict>'', net = (\<lambda>t. Inr ex_grant)\<rparr>"

text \<open>The object inside a constructor call, after line 66 stored the address.\<close>

definition provisioning :: "wifi_manager \<Rightarrow> bridge" where
  "provisioning w = (new_bridge w)\<lparr>p_bridge_ip := Some (PStr ''10.0.0.5'')\<rparr>"

text \<open>The object \<open>Bridge(wifi, '10.0.0.5', '')\<close>.\<close>

definition bridge_empty_username :: bridge where
  "bridge_empty_username =
     (new_bridge wifi_granting)\<lparr>p_bridge_url := Some ''http://10.0.0.5/api'',
        p_username_url := Some ''http://10.0.0.5/api/''\<rparr>"

text \<open>The object \<open>Bridge(wifi, '10.0.0.5', 'abc123')\<close>.\<close>

definition bridge_ready :: bridge where
  "bridge_ready =
     (new_bridge wifi_granting)\<lparr>p_bridge_url := Some ''http://10.0.0.5/api'',
        p_username_url := Some ''http://10.0.0.5/api/abc123''\<rparr>"

section \<open>Facts about the trace and the retry loop\<close>

lemma requests_append [simp]: "requests (a @ b) = requests a @ requests b"
  by (simp add: requests_def)

lemma sleeps_append [simp]: "sleeps (a @ b) = sleeps a @ sleeps b"
  by (simp add: sleeps_def)

lemma accepts_ex_type [simp]: "str_in ''ESPSPI_WiFiManager'' ex_type"
  by (simp add: ex_type_def)

lemma requests_simps [simp]:
  "requests [] = []"
  "requests (Request m u d # t) = Request m u d # requests t"
  "requests (Sleep k # t) = requests t"
  "requests (Stdout s # t) = requests t"
  by (simp_all add: requests_def is_request_def)

lemma sleeps_simps [simp]:
  "sleeps [] = []"
  "sleeps (Request m u d # t) = sleeps t"
  "sleeps (Sleep k # t) = Sleep k # sleeps t"
  "sleeps (Stdout s # t) = sleeps t"
  by (simp_all add: sleeps_def is_sleep_def)

lemma requests_rounds [simp]: "requests (rounds (Request m u d) n) = replicate n (Request m u d)"
  by (induction n) (simp_all add: rounds_def requests_def is_request_def)

lemma sleeps_rounds [simp]: "sleeps (rounds (Request m u d) n) = replicate n (Sleep 1)"
  by (induction n) (simp_all add: rounds_def sleeps_def is_sleep_def)

lemma rounds_Suc_end: "rounds p (Suc n) = rounds p n @ [p, Sleep 1]"
  unfolding rounds_def
  by (induction n) simp_all

lemma pairing_refusedD:
  "pairing_refused r \<Longrightarrow>
   \<exists>resp d rest. r = Inr resp \<and> resp_json resp = Inr (PList (PDict d # rest))
     \<and> \<not> py_truthy (case map_of d ''success'' of None \<Rightarrow> PNone | Some v \<Rightarrow> v)"
  unfolding pairing_refused_def
  by (auto split: sum.splits pyval.splits list.splits)

lemma pairing_grantedD:
  "pairing_granted u r \<Longrightarrow>
   \<exists>resp d rest s. r = Inr resp \<and> resp_json resp = Inr (PList (PDict d # rest))
     \<and> map_of d ''success'' = Some (PDict s) \<and> map_of s ''username'' = Some u"
  unfolding pairing_granted_def
  by (auto split: sum.splits pyval.splits list.splits option.splits)

text \<open>The loop is left at once when a username is there or no attempt remains.\<close>

lemma loop_exit:
  "\<not> (username = PNone \<and> 0 < n) \<Longrightarrow>
   register_loop sf url data username n resp self tr = (Inr (username, resp), self, tr)"
  by (subst register_loop.simps) auto

text \<open>One round on a refusal: the request, the sleep, one attempt less.\<close>

lemma loop_refused_step:
  assumes "0 < n" and "net (p_wifi self) (tr @ [Request POST url (Some data)]) = Inr resp1"
    and "pairing_refused (Inr resp1)"
  shows "register_loop sf url data PNone n resp self tr =
         register_loop sf url data PNone (n - 1) resp1 self
           (tr @ [Request POST url (Some data), Sleep 1])"
proof -
  from pairing_refusedD [OF assms(3)] obtain d rest where
    j: "resp_json resp1 = Inr (PList (PDict d # rest))" and
    f: "\<not> py_truthy (case map_of d ''success'' of None \<Rightarrow> PNone | Some v \<Rightarrow> v)"
    by auto
  show ?thesis
    using assms(1,2) j f
    by (subst register_loop.simps)
       (auto simp: http_post_def wifi_call_def Let_def split: option.splits)
qed

text \<open>One round on a grant: the request, the assignment, the sleep, and the loop ends.\<close>

lemma loop_granted_step:
  assumes "0 < n" and "net (p_wifi self) (tr @ [Request POST url (Some data)]) = Inr resp1"
    and "pairing_granted u (Inr resp1)"
  shows "register_loop sf url data PNone n resp self tr =
         (Inr (PStr (py_str sf u), resp1),
          self\<lparr>p_username_url := Some (url @ ''/'' @ py_str sf u)\<rparr>,
          tr @ [Request POST url (Some data), Sleep 1])"
proof -
  from pairing_grantedD [OF assms(3)] obtain d rest s where
    j: "resp_json resp1 = Inr (PList (PDict d # rest))" and
    s: "map_of d ''success'' = Some (PDict s)" and u: "map_of s ''username'' = Some u"
    by auto
  from u have ne: "s \<noteq> []" by auto
  have "register_loop sf url data PNone n resp self tr =
        register_loop sf url data (PStr (py_str sf u)) (n - 1) resp1
          (self\<lparr>p_username_url := Some (url @ ''/'' @ py_str sf u)\<rparr>)
          (tr @ [Request POST url (Some data), Sleep 1])"
    using assms(1,2) j s u ne
    by (subst register_loop.simps)
       (auto simp: http_post_def wifi_call_def Let_def split: option.splits)
  then show ?thesis by (simp add: loop_exit)
qed

text \<open>\<open>m\<close> refusals in a row use up \<open>m\<close> attempts.\<close>

lemma loop_all_refused:
  assumes "\<And>j. j < m \<Longrightarrow>
      \<exists>r. net (p_wifi self)
             (tr @ rounds (Request POST url (Some data)) j @ [Request POST url (Some data)]) = Inr r
         \<and> pairing_refused (Inr r)"
  shows "\<exists>resp'. register_loop sf url data PNone (int m) resp self tr =
           (Inr (PNone, resp'), self, tr @ rounds (Request POST url (Some data)) m)
         \<and> (if m = 0 then resp' = resp
            else net (p_wifi self)
                  (tr @ rounds (Request POST url (Some data)) (m - 1)
                      @ [Request POST url (Some data)]) = Inr resp')"
  using assms
proof (induction m arbitrary: tr resp)
  case 0
  then show ?case by (simp add: loop_exit rounds_def)
next
  case (Suc m)
  let ?p = "Request POST url (Some data)"
  from Suc.prems [of 0] obtain r1 where
    r1: "net (p_wifi self) (tr @ [?p]) = Inr r1" and f1: "pairing_refused (Inr r1)"
    by (auto simp: rounds_def)
  have step: "register_loop sf url data PNone (int (Suc m)) resp self tr =
              register_loop sf url data PNone (int m) r1 self (tr @ [?p, Sleep 1])"
    using loop_refused_step [OF _ r1 f1, of "int (Suc m)" sf resp] by simp
  have hyp: "\<exists>r. net (p_wifi self) ((tr @ [?p, Sleep 1]) @ rounds ?p j @ [?p]) = Inr r
         \<and> pairing_refused (Inr r)" if "j < m" for j
    using Suc.prems [of "Suc j"] that by (simp add: rounds_def)
  from Suc.IH [of "tr @ [?p, Sleep 1]" r1, OF hyp] obtain resp' where
    l: "register_loop sf url data PNone (int m) r1 self (tr @ [?p, Sleep 1]) =
           (Inr (PNone, resp'), self, (tr @ [?p, Sleep 1]) @ rounds ?p m)"
    and w: "if m = 0 then resp' = r1
            else net (p_wifi self) ((tr @ [?p, Sleep 1]) @ rounds ?p (m - 1) @ [?p]) = Inr resp'"
    by blast
  have "net (p_wifi self) (tr @ rounds ?p (Suc m - 1) @ [?p]) = Inr resp'"
  proof (cases m)
    case 0
    with w r1 show ?thesis by (simp add: rounds_def)
  next
    case (Suc m')
    with w show ?thesis by (simp add: rounds_def)
  qed
  with step l show ?case by (simp add: rounds_def)
qed

text \<open>\<open>m\<close> refusals and then a grant, with an attempt left for it.\<close>

lemma loop_granted_after:
  assumes "\<And>j. j < m \<Longrightarrow>
      \<exists>r. net (p_wifi self)
             (tr @ rounds (Request POST url (Some data)) j @ [Request POST url (Some data)]) = Inr r
         \<and> pairing_refused (Inr r)"
    and "net (p_wifi self)
           (tr @ rounds (Request POST url (Some data)) m @ [Request POST url (Some data)]) = Inr rk"
    and "pairing_granted u (Inr rk)"
    and "m < c"
  shows "register_loop sf url data PNone (int c) resp self tr =
           (Inr (PStr (py_str sf u), rk),
            self\<lparr>p_username_url := Some (url @ ''/'' @ py_str sf u)\<rparr>,
            tr @ rounds (Request POST url (Some data)) (Suc m))"
  using assms
proof (induction m arbitrary: tr resp c)
  case 0
  then show ?case
    using loop_granted_step [of "int c" self tr url data rk u sf resp]
    by (simp add: rounds_def)
next
  case (Suc m)
  let ?p = "Request POST url (Some data)"
  from Suc.prems(1) [of 0] obtain r1 where
    r1: "net (p_wifi self) (tr @ [?p]) = Inr r1" and f1: "pairing_refused (Inr r1)"
    by (auto simp: rounds_def)
  from Suc.prems(4) obtain c' where c: "c = Suc c'" and mc: "m < c'"
    by (cases c) auto
  have step: "register_loop sf url data PNone (int c) resp self tr =
              register_loop sf url data PNone (int c') r1 self (tr @ [?p, Sleep 1])"
    using loop_refused_step [OF _ r1 f1, of "int c" sf resp] c by simp
  have hyp: "\<exists>r. net (p_wifi self) ((tr @ [?p, Sleep 1]) @ rounds ?p j @ [?p]) = Inr r
         \<and> pairing_refused (Inr r)" if "j < m" for j
    using Suc.prems(1) [of "Suc j"] that by (simp add: rounds_def)
  have g: "net (p_wifi self) ((tr @ [?p, Sleep 1]) @ rounds ?p m @ [?p]) = Inr rk"
    using Suc.prems(2) by (simp add: rounds_def)
  from Suc.IH [of "tr @ [?p, Sleep 1]" c' r1, OF hyp g Suc.prems(3) mc] step
  show ?case by (simp add: rounds_def)
qed

section \<open>Registration\<close>

text \<open>
  C1 (as the code has it). When every answer to a pairing request is a refusal (a list
  whose first element is an object without a true \<open>success\<close> entry) and closes without
  error, \<open>register_username\<close> sends one request before the loop, whose answer it does
  not look at, and then thirty requests in the loop, each followed by a sleep of one
  second: 31 requests and 30 sleeps. It then returns \<open>None\<close> and raises nothing; it
  has stored the base URL and left the authenticated URL as it was.
\<close>

theorem register_username_all_refused:
  assumes "p_bridge_ip self = Some ip"
    and "\<forall>t. \<exists>r. net (p_wifi self) t = Inr r \<and> pairing_refused (Inr r) \<and> resp_close r = None"
  shows "register_username sf rnd self tr =
           (Inr PNone, self\<lparr>p_bridge_url := Some (api_url sf ip)\<rparr>,
            tr @ [pairing_post sf rnd ip] @ rounds (pairing_post sf rnd ip) 30)
       \<and> length (requests (snd (snd (register_username sf rnd self tr)))) = length (requests tr) + 31
       \<and> length (sleeps (snd (snd (register_username sf rnd self tr)))) = length (sleeps tr) + 30"
proof -
  let ?url = "api_url sf ip" and ?data = "pairing_body sf rnd"
  let ?p = "Request POST ?url (Some ?data)"
  let ?self1 = "self\<lparr>p_bridge_url := Some ?url\<rparr>"
  have w: "p_wifi ?self1 = p_wifi self" by simp
  from assms(2) obtain r0 where r0: "net (p_wifi self) (tr @ [?p]) = Inr r0" by blast
  have hyp: "\<exists>r. net (p_wifi ?self1) ((tr @ [?p]) @ rounds ?p j @ [?p]) = Inr r \<and> pairing_refused (Inr r)"
    if "j < 30" for j
    using assms(2) unfolding w by blast
  from loop_all_refused [of 30 ?self1 "tr @ [?p]" ?url ?data sf r0, OF hyp]
  obtain resp' where
    l: "register_loop sf ?url ?data PNone 30 r0 ?self1 (tr @ [?p]) =
          (Inr (PNone, resp'), ?self1, (tr @ [?p]) @ rounds ?p 30)"
    and n: "net (p_wifi ?self1) ((tr @ [?p]) @ rounds ?p (30 - 1) @ [?p]) = Inr resp'"
    by auto
  from assms(2) n have c: "resp_close resp' = None"
    unfolding w by (metis Inr_inject)
  have run: "register_username sf rnd self tr =
           (Inr PNone, ?self1, tr @ [pairing_post sf rnd ip] @ rounds (pairing_post sf rnd ip) 30)"
    using assms(1) r0 l c
    by (simp add: register_username_def Let_def http_post_def wifi_call_def pairing_post_def)
  show ?thesis
    unfolding run by (simp add: pairing_post_def)
qed

text \<open>The bridge whose link button is never pressed: 31 requests, 30 sleeps, \<open>None\<close>.\<close>

theorem register_username_all_refused_witness:
  "p_bridge_ip (provisioning wifi_refusing) = Some (PStr ''10.0.0.5'')
   \<and> (\<forall>t. \<exists>r. net (p_wifi (provisioning wifi_refusing)) t = Inr r
          \<and> pairing_refused (Inr r) \<and> resp_close r = None)
   \<and> fst (register_username ex_str 7 (provisioning wifi_refusing) []) = Inr PNone
   \<and> length (requests (snd (snd (register_username ex_str 7 (provisioning wifi_refusing) [])))) = 31
   \<and> length (sleeps (snd (snd (register_username ex_str 7 (provisioning wifi_refusing) [])))) = 30"
proof -
  have a: "p_bridge_ip (provisioning wifi_refusing) = Some (PStr ''10.0.0.5'')"
    by (simp add: provisioning_def)
  have b: "\<forall>t. \<exists>r. net (p_wifi (provisioning wifi_refusing)) t = Inr r
          \<and> pairing_refused (Inr r) \<and> resp_close r = None"
    by (simp add: provisioning_def new_bridge_def wifi_refusing_def ex_refusal_def
        pairing_refused_def)
  from register_username_all_refused [OF a b, of ex_str 7 "[]"] a b
  show ?thesis by (simp add: pairing_post_def)
qed

text \<open>
  C1 as stated asks for 30 requests and 29 sleeps. Evaluating the method against the
  refusing bridge gives 31 and 30.
\<close>

theorem register_username_count_counterexample:
  "pairing_refused (net wifi_refusing [pairing_post ex_str 7 (PStr ''10.0.0.5'')])
   \<and> fst (register_username ex_str 7 (provisioning wifi_refusing) []) = Inr PNone
   \<and> length (requests (snd (snd (register_username ex_str 7 (provisioning wifi_refusing) [])))) = 31
   \<and> length (sleeps (snd (snd (register_username ex_str 7 (provisioning wifi_refusing) [])))) = 30"
  by code_simp

text \<open>
  C2 (as the code has it). Let the request before the loop be answered, the first \<open>n\<close>
  requests of the loop (\<open>n < 30\<close>) be refused, and the next one be granted the username
  \<open>u\<close>. Then the authenticated URL is the base URL, \<open>/\<close> and \<open>str(u)\<close>, and the trace
  ends with the granted request and one more sleep of a second: no request follows
  the grant, one sleep does. The method then closes the granting response: it returns
  \<open>str(u)\<close> when that succeeds, and lets the exception of \<open>close\<close> through when it
  does not, with the same trace and the same attributes.
\<close>

theorem register_username_granted:
  assumes ip: "p_bridge_ip self = Some ip"
    and n: "n < 30"
    and first: "net (p_wifi self) (tr @ [pairing_post sf rnd ip]) = Inr r0"
    and refused: "\<forall>j<n. \<exists>r. net (p_wifi self)
                     (tr @ [pairing_post sf rnd ip] @ rounds (pairing_post sf rnd ip) j
                         @ [pairing_post sf rnd ip]) = Inr r \<and> pairing_refused (Inr r)"
    and granted: "net (p_wifi self)
                     (tr @ [pairing_post sf rnd ip] @ rounds (pairing_post sf rnd ip) n
                         @ [pairing_post sf rnd ip]) = Inr rk"
                 "pairing_granted u (Inr rk)"
  shows "register_username sf rnd self tr =
           ((case resp_close rk of None \<Rightarrow> Inr (PStr (py_str sf u)) | Some e \<Rightarrow> Inl e),
            self\<lparr>p_bridge_url := Some (api_url sf ip),
                 p_username_url := Some (api_url sf ip @ ''/'' @ py_str sf u)\<rparr>,
            tr @ [pairing_post sf rnd ip] @ rounds (pairing_post sf rnd ip) n
               @ [pairing_post sf rnd ip, Sleep 1])"
proof -
  let ?url = "api_url sf ip" and ?data = "pairing_body sf rnd"
  let ?p = "Request POST ?url (Some ?data)"
  let ?self1 = "self\<lparr>p_bridge_url := Some ?url\<rparr>"
  have w: "p_wifi ?self1 = p_wifi self" by simp
  have hyp: "\<exists>r. net (p_wifi ?self1) ((tr @ [?p]) @ rounds ?p j @ [?p]) = Inr r \<and> pairing_refused (Inr r)"
    if "j < n" for j
    using refused that unfolding w pairing_post_def by simp
  have g: "net (p_wifi ?self1) ((tr @ [?p]) @ rounds ?p n @ [?p]) = Inr rk"
    using granted(1) unfolding w pairing_post_def by simp
  from loop_granted_after [of n ?self1 "tr @ [?p]" ?url ?data rk u 30 sf r0, OF hyp g granted(2) n]
  have l: "register_loop sf ?url ?data PNone 30 r0 ?self1 (tr @ [?p]) =
          (Inr (PStr (py_str sf u), rk),
           ?self1\<lparr>p_username_url := Some (?url @ ''/'' @ py_str sf u)\<rparr>,
           (tr @ [?p]) @ rounds ?p (Suc n))"
    by simp
  show ?thesis
    using ip first l
    by (cases "resp_close rk")
       (simp_all add: register_username_def Let_def http_post_def wifi_call_def pairing_post_def
        rounds_Suc_end)
qed

text \<open>
  A bridge that refuses three requests and grants the fourth, and a bridge that grants
  every request with a response whose \<open>close\<close> raises.
\<close>

theorem register_username_granted_witness:
  "p_bridge_ip (provisioning wifi_granting_late) = Some (PStr ''10.0.0.5'')
   \<and> (2::nat) < 30
   \<and> net (p_wifi (provisioning wifi_granting_late)) [pairing_post ex_str 7 (PStr ''10.0.0.5'')]
       = Inr ex_refusal
   \<and> net (p_wifi (provisioning wifi_granting_late))
         ([] @ [pairing_post ex_str 7 (PStr ''10.0.0.5'')]
             @ rounds (pairing_post ex_str 7 (PStr ''10.0.0.5'')) 0
             @ [pairing_post ex_str 7 (PStr ''10.0.0.5'')]) = Inr ex_refusal
   \<and> net (p_wifi (provisioning wifi_granting_late))
         ([] @ [pairing_post ex_str 7 (PStr ''10.0.0.5'')]
             @ rounds (pairing_post ex_str 7 (PStr ''10.0.0.5'')) 1
             @ [pairing_post ex_str 7 (PStr ''10.0.0.5'')]) = Inr ex_refusal
   \<and> pairing_refused (Inr ex_refusal)
   \<and> net (p_wifi (provisioning wifi_granting_late))
         ([] @ [pairing_post ex_str 7 (PStr ''10.0.0.5'')]
             @ rounds (pairing_post ex_str 7 (PStr ''10.0.0.5'')) 2
             @ [pairing_post ex_str 7 (PStr ''10.0.0.5'')]) = Inr ex_grant
   \<and> pairing_granted (PStr ''abc123'') (Inr ex_grant)
   \<and> resp_close ex_grant = None
   \<and> register_username ex_str 7 (provisioning wifi_granting_late) [] =
       (Inr (PStr ''abc123''),
        (provisioning wifi_granting_late)\<lparr>p_bridge_url := Some ''http://10.0.0.5/api'',
           p_username_url := Some ''http://10.0.0.5/api/abc123''\<rparr>,
        [pairing_post ex_str 7 (PStr ''10.0.0.5''),
         pairing_post ex_str 7 (PStr ''10.0.0.5''), Sleep 1,
         pairing_post ex_str 7 (PStr ''10.0.0.5''), Sleep 1,
         pairing_post ex_str 7 (PStr ''10.0.0.5''), Sleep 1])
   \<and> pairing_granted (PStr ''abc123'') (Inr ex_grant_unclosable)
   \<and> resp_close ex_grant_unclosable = Some (Exn ''OSError'' ''socket closed'')
   \<and> register_username ex_str 7 (provisioning wifi_granting_unclosable) [] =
       (Inl (Exn ''OSError'' ''socket closed''),
        (provisioning wifi_granting_unclosable)\<lparr>p_bridge_url := Some ''http://10.0.0.5/api'',
           p_username_url := Some ''http://10.0.0.5/api/abc123''\<rparr>,
        [pairing_post ex_str 7 (PStr ''10.0.0.5''),
         pairing_post ex_str 7 (PStr ''10.0.0.5''), Sleep 1])"
proof -
  let ?b = "provisioning wifi_granting_late" and ?p = "pairing_post ex_str 7 (PStr ''10.0.0.5'')"
  let ?c = "provisioning wifi_granting_unclosable"
  have rq: "requests (?p # t) = ?p # requests t" for t
    by (simp add: pairing_post_def)
  have rr: "requests (rounds ?p j) = replicate j ?p" for j
    by (simp add: pairing_post_def)
  have nt: "net (p_wifi ?b) t = (if length (requests t) < 4 then Inr ex_refusal else Inr ex_grant)" for t
    by (simp add: provisioning_def new_bridge_def wifi_granting_late_def)
  have a: "p_bridge_ip ?b = Some (PStr ''10.0.0.5'')"
    by (simp add: provisioning_def)
  have b: "(2::nat) < 30" by simp
  have c: "net (p_wifi ?b) ([] @ [?p]) = Inr ex_refusal"
    by (simp add: nt rq)
  have rf: "pairing_refused (Inr ex_refusal)"
    by (simp add: pairing_refused_def ex_refusal_def)
  have d: "\<forall>j<2. \<exists>r. net (p_wifi ?b) ([] @ [?p] @ rounds ?p j @ [?p]) = Inr r
             \<and> pairing_refused (Inr r)"
    using rf by (simp add: nt rq rr)
  have e: "net (p_wifi ?b) ([] @ [?p] @ rounds ?p 2 @ [?p]) = Inr ex_grant"
    by (simp add: nt rq rr)
  have f: "pairing_granted (PStr ''abc123'') (Inr ex_grant)"
    by (simp add: pairing_granted_def ex_grant_def)
  have g: "resp_close ex_grant = None"
    by (simp add: ex_grant_def)
  have r2: "rounds ?p 2 = [?p, Sleep 1, ?p, Sleep 1]"
    by (simp add: rounds_def numeral_2_eq_2)
  have d0: "net (p_wifi ?b) ([] @ [?p] @ rounds ?p 0 @ [?p]) = Inr ex_refusal"
    and d1: "net (p_wifi ?b) ([] @ [?p] @ rounds ?p 1 @ [?p]) = Inr ex_refusal"
    by (simp_all add: nt rq rr)
  from register_username_granted [OF a b c d e f] g
  have run: "register_username ex_str 7 ?b [] =
       (Inr (PStr ''abc123''),
        ?b\<lparr>p_bridge_url := Some ''http://10.0.0.5/api'',
           p_username_url := Some ''http://10.0.0.5/api/abc123''\<rparr>,
        [?p, ?p, Sleep 1, ?p, Sleep 1, ?p, Sleep 1])"
    by (simp add: api_url_def py_str_def r2)
  have nc: "net (p_wifi ?c) t = Inr ex_grant_unclosable" for t
    by (simp add: provisioning_def new_bridge_def wifi_granting_unclosable_def)
  have a': "p_bridge_ip ?c = Some (PStr ''10.0.0.5'')"
    by (simp add: provisioning_def)
  have b': "(0::nat) < 30" by simp
  have d': "\<forall>j<0. \<exists>r. net (p_wifi ?c) ([] @ [?p] @ rounds ?p j @ [?p]) = Inr r
             \<and> pairing_refused (Inr r)"
    by simp
  have f': "pairing_granted (PStr ''abc123'') (Inr ex_grant_unclosable)"
    by (simp add: pairing_granted_def ex_grant_unclosable_def)
  have g': "resp_close ex_grant_unclosable = Some (Exn ''OSError'' ''socket closed'')"
    by (simp add: ex_grant_unclosable_def)
  from register_username_granted [OF a' b' nc d' nc f'] g'
  have run': "register_username ex_str 7 ?c [] =
       (Inl (Exn ''OSError'' ''socket closed''),
        ?c\<lparr>p_bridge_url := Some ''http://10.0.0.5/api'',
           p_username_url := Some ''http://10.0.0.5/api/abc123''\<rparr>,
        [?p, ?p, Sleep 1])"
    by (simp add: api_url_def py_str_def rounds_def)
  from a b c d0 d1 rf e f g run f' g' run'
  show ?thesis
    by simp
qed

text \<open>
  C2 as stated lets the method stop at the first answer that carries a username, with
  no sleep after it. Against a bridge that grants every request, the answer to the
  first request already carries the username; the method sends a second request and
  then sleeps.
\<close>

theorem register_username_extra_round_counterexample:
  "pairing_granted (PStr ''abc123'') (net wifi_granting [pairing_post ex_str 7 (PStr ''10.0.0.5'')])
   \<and> fst (register_username ex_str 7 (provisioning wifi_granting) []) = Inr (PStr ''abc123'')
   \<and> snd (snd (register_username ex_str 7 (provisioning wifi_granting) [])) =
       [pairing_post ex_str 7 (PStr ''10.0.0.5''),
        pairing_post ex_str 7 (PStr ''10.0.0.5''), Sleep 1]"
  by code_simp

section \<open>Discovery\<close>

text \<open>
  Whatever the transport does, \<open>discover_bridge\<close> sends one request and either raises
  the one \<open>TypeError\<close> of its \<open>except\<close> clause, leaving the object as it was, or
  returns an address and stores it.
\<close>

lemma discover_bridge_cases:
  "discover_bridge sf self tr
     = (Inl (Exn ''TypeError'' discover_message), self, tr @ [Request GET discovery_url None])
   \<or> (\<exists>a. discover_bridge sf self tr
          = (Inr a, self\<lparr>p_ip := Some a, bridge_url := Some (api_url sf a)\<rparr>,
             tr @ [Request GET discovery_url None]))"
  by (auto simp: discover_bridge_def discover_try_def wifi_call_def Let_def
      split: sum.splits option.splits prod.splits)

text \<open>
  C5 (as the code has it). \<open>discover_bridge\<close> raises a \<open>TypeError\<close> with one fixed
  message, the only exception it ever raises, whenever the discovery request fails,
  the body of the response is no JSON, or the list of candidates is empty: every
  exception of the transport or of the parsing ends as that one error. The module
  has no class \<open>DiscoveryError\<close>. When the first candidate has the address
  \<open>address\<close>, the method stores it in \<open>_ip\<close>, sets the attribute \<open>bridge_url\<close> to
  \<open>http://address/api\<close> and returns the address.
\<close>

theorem discover_bridge_outcomes:
  "(discover_bridge sf self tr
      = (Inl (Exn ''TypeError'' discover_message), self, tr @ [Request GET discovery_url None])
    \<or> (\<exists>a. discover_bridge sf self tr
          = (Inr a, self\<lparr>p_ip := Some a, bridge_url := Some (''http://'' @ py_str sf a @ ''/api'')\<rparr>,
             tr @ [Request GET discovery_url None])))
   \<and> (net (p_wifi self) (tr @ [Request GET discovery_url None]) = Inl e \<longrightarrow>
        fst (discover_bridge sf self tr) = Inl (Exn ''TypeError'' discover_message))
   \<and> (net (p_wifi self) (tr @ [Request GET discovery_url None]) = Inr (Response (Inl e) c) \<longrightarrow>
        fst (discover_bridge sf self tr) = Inl (Exn ''TypeError'' discover_message))
   \<and> (net (p_wifi self) (tr @ [Request GET discovery_url None]) = Inr (Response (Inr (PList [])) c) \<longrightarrow>
        fst (discover_bridge sf self tr) = Inl (Exn ''TypeError'' discover_message))
   \<and> (net (p_wifi self) (tr @ [Request GET discovery_url None])
         = Inr (Response (Inr (PList (PDict d # rest))) None)
       \<and> map_of d ''internalipaddress'' = Some (PStr address) \<longrightarrow>
        discover_bridge sf self tr
          = (Inr (PStr address),
             self\<lparr>p_ip := Some (PStr address), bridge_url := Some (''http://'' @ address @ ''/api'')\<rparr>,
             tr @ [Request GET discovery_url None]))"
proof -
  have "discover_bridge sf self tr
      = (Inl (Exn ''TypeError'' discover_message), self, tr @ [Request GET discovery_url None])
    \<or> (\<exists>a. discover_bridge sf self tr
          = (Inr a, self\<lparr>p_ip := Some a, bridge_url := Some (''http://'' @ py_str sf a @ ''/api'')\<rparr>,
             tr @ [Request GET discovery_url None]))"
    using discover_bridge_cases [of sf self tr] by (simp add: api_url_def)
  moreover have "net (p_wifi self) (tr @ [Request GET discovery_url None]) = Inl e \<longrightarrow>
        fst (discover_bridge sf self tr) = Inl (Exn ''TypeError'' discover_message)"
    by (simp add: discover_bridge_def discover_try_def wifi_call_def Let_def)
  moreover have "net (p_wifi self) (tr @ [Request GET discovery_url None]) = Inr (Response (Inl e) c) \<longrightarrow>
        fst (discover_bridge sf self tr) = Inl (Exn ''TypeError'' discover_message)"
    by (simp add: discover_bridge_def discover_try_def wifi_call_def Let_def)
  moreover have "net (p_wifi self) (tr @ [Request GET discovery_url None]) = Inr (Response (Inr (PList [])) c) \<longrightarrow>
        fst (discover_bridge sf self tr) = Inl (Exn ''TypeError'' discover_message)"
    by (simp add: discover_bridge_def discover_try_def wifi_call_def Let_def)
  moreover have "net (p_wifi self) (tr @ [Request GET discovery_url None])
         = Inr (Response (Inr (PList (PDict d # rest))) None)
       \<and> map_of d ''internalipaddress'' = Some (PStr address) \<longrightarrow>
        discover_bridge sf self tr
          = (Inr (PStr address),
             self\<lparr>p_ip := Some (PStr address), bridge_url := Some (''http://'' @ address @ ''/api'')\<rparr>,
             tr @ [Request GET discovery_url None])"
    by (simp add: discover_bridge_def discover_try_def wifi_call_def Let_def api_url_def py_str_def)
  ultimately show ?thesis by blast
qed

text \<open>
  A discovery that finds the bridge at 10.0.0.5, one that finds none, and one
  without network.
\<close>

theorem discover_bridge_outcomes_witness:
  "discover_bridge ex_str (new_bridge wifi_discovering) []
     = (Inr (PStr ''10.0.0.5''),
        (new_bridge wifi_discovering)\<lparr>p_ip := Some (PStr ''10.0.0.5''),
           bridge_url := Some ''http://10.0.0.5/api''\<rparr>,
        [Request GET discovery_url None])
   \<and> net wifi_no_bridge [Request GET discovery_url None] = Inr (Response (Inr (PList [])) None)
   \<and> fst (discover_bridge ex_str (new_bridge wifi_no_bridge) [])
       = Inl (Exn ''TypeError'' discover_message)
   \<and> net wifi_offline [Request GET discovery_url None] = Inl (Exn ''OSError'' ''no route'')
   \<and> fst (discover_bridge ex_str (new_bridge wifi_offline) [])
       = Inl (Exn ''TypeError'' discover_message)"
proof -
  have a: "net (p_wifi (new_bridge wifi_discovering)) ([] @ [Request GET discovery_url None])
         = Inr (Response (Inr (PList (PDict [(''id'', PStr ''001788fffe100491''),
               (''internalipaddress'', PStr ''10.0.0.5'')] # []))) None)
       \<and> map_of [(''id'', PStr ''001788fffe100491''), (''internalipaddress'', PStr ''10.0.0.5'')]
           ''internalipaddress'' = Some (PStr ''10.0.0.5'')"
    by (simp add: new_bridge_def wifi_discovering_def)
  have b: "net (p_wifi (new_bridge wifi_no_bridge)) ([] @ [Request GET discovery_url None])
         = Inr (Response (Inr (PList [])) None)"
    by (simp add: new_bridge_def wifi_no_bridge_def)
  have c: "net (p_wifi (new_bridge wifi_offline)) ([] @ [Request GET discovery_url None])
         = Inl (Exn ''OSError'' ''no route'')"
    by (simp add: new_bridge_def wifi_offline_def)
  from discover_bridge_outcomes [of ex_str "new_bridge wifi_discovering" "[]" _ _
      "[(''id'', PStr ''001788fffe100491''), (''internalipaddress'', PStr ''10.0.0.5'')]" "[]"
      "''10.0.0.5''"] a
  have s: "discover_bridge ex_str (new_bridge wifi_discovering) []
     = (Inr (PStr ''10.0.0.5''),
        (new_bridge wifi_discovering)\<lparr>p_ip := Some (PStr ''10.0.0.5''),
           bridge_url := Some ''http://10.0.0.5/api''\<rparr>,
        [Request GET discovery_url None])"
    by simp
  from discover_bridge_outcomes [of ex_str "new_bridge wifi_no_bridge" "[]" _ None] b
  have e: "fst (discover_bridge ex_str (new_bridge wifi_no_bridge) [])
       = Inl (Exn ''TypeError'' discover_message)"
    by blast
  from discover_bridge_outcomes [of ex_str "new_bridge wifi_offline" "[]" "Exn ''OSError'' ''no route''"] c
  have f: "fst (discover_bridge ex_str (new_bridge wifi_offline) [])
       = Inl (Exn ''TypeError'' discover_message)"
    by blast
  from s e f b c show ?thesis
    by (simp add: new_bridge_def)
qed

text \<open>
  C5 as stated names the error \<open>DiscoveryError\<close>. On an empty list of candidates the
  exception that leaves the method is a \<open>TypeError\<close>.
\<close>

theorem discover_bridge_error_class_counterexample:
  "net wifi_no_bridge [Request GET discovery_url None] = Inr (Response (Inr (PList [])) None)
   \<and> raised_class (fst (discover_bridge ex_str (new_bridge wifi_no_bridge) [])) = Some ''TypeError''
   \<and> raised_class (fst (discover_bridge ex_str (new_bridge wifi_no_bridge) []))
       \<noteq> Some ''DiscoveryError''"
  by (simp add: discover_bridge_def discover_try_def wifi_call_def Let_def new_bridge_def
      wifi_no_bridge_def raised_class_def)

section \<open>The constructor\<close>

text \<open>
  C6. For an accepted WiFi manager, a non-empty address and a username, both strings,
  the constructor leaves the trace as it was (no request, no sleep) and returns an
  object whose authenticated URL is \<open>http://address/api/username\<close>.
\<close>

theorem init_with_credentials:
  assumes "accepts_wifi w" and "address \<noteq> []"
  shows "Bridge_init sf rnd w (PStr address) (PStr name) tr
           = (Inr ((new_bridge w)\<lparr>p_bridge_url := Some (''http://'' @ address @ ''/api''),
                     p_username_url := Some (''http://'' @ address @ ''/api/'' @ name)\<rparr>), tr)"
  using assms by (simp add: Bridge_init_def Let_def api_url_def py_str_def)

text \<open>
  The call \<open>Bridge(wifi, '10.0.0.5', 'abc123')\<close>.
\<close>

theorem init_with_credentials_witness:
  "accepts_wifi wifi_granting \<and> ''10.0.0.5'' \<noteq> []
   \<and> Bridge_init ex_str 7 wifi_granting (PStr ''10.0.0.5'') (PStr ''abc123'') []
       = (Inr ((new_bridge wifi_granting)\<lparr>p_bridge_url := Some ''http://10.0.0.5/api'',
                  p_username_url := Some ''http://10.0.0.5/api/abc123''\<rparr>), [])"
proof -
  have a: "accepts_wifi wifi_granting"
    by (simp add: accepts_wifi_def wifi_granting_def)
  have b: "''10.0.0.5'' \<noteq> []" by simp
  from init_with_credentials [OF a b, of ex_str 7 "''abc123''" "[]"] a show ?thesis by simp
qed

text \<open>
  C10. When the type name of the transport contains neither \<open>ESPSPI_WiFiManager\<close>
  nor \<open>ESPAT_WiFiManager\<close>, the constructor raises \<open>TypeError\<close> with the trace
  untouched and returns no object, whatever the address and the username are.
\<close>

theorem init_rejects_other_transport:
  assumes "\<not> str_in ''ESPSPI_WiFiManager'' (wifi_type w)"
    and "\<not> str_in ''ESPAT_WiFiManager'' (wifi_type w)"
  shows "Bridge_init sf rnd w bridge_ip username tr = (Inl (Exn ''TypeError'' wifi_message), tr)"
  using assms by (simp add: Bridge_init_def accepts_wifi_def)

text \<open>
  A dictionary passed as transport, with and without credentials.
\<close>

theorem init_rejects_other_transport_witness:
  "\<not> str_in ''ESPSPI_WiFiManager'' (wifi_type wifi_other)
   \<and> \<not> str_in ''ESPAT_WiFiManager'' (wifi_type wifi_other)
   \<and> Bridge_init ex_str 7 wifi_other (PStr ''10.0.0.5'') (PStr ''abc123'') []
       = (Inl (Exn ''TypeError'' wifi_message), [])
   \<and> Bridge_init ex_str 7 wifi_other PNone PNone []
       = (Inl (Exn ''TypeError'' wifi_message), [])"
proof -
  have a: "\<not> str_in ''ESPSPI_WiFiManager'' (wifi_type wifi_other)"
    by (simp add: wifi_other_def)
  have b: "\<not> str_in ''ESPAT_WiFiManager'' (wifi_type wifi_other)"
    by (simp add: wifi_other_def)
  from init_rejects_other_transport [OF a b] a b show ?thesis by simp
qed

section \<open>The resource methods\<close>

text \<open>
  C3 (what the code does). \<open>create_group\<close> reads the global name \<open>lightGroup\<close>, which
  the module never binds, while it builds the request body. Every call raises
  \<open>NameError\<close> there: no POST is sent and no JSON is returned.
\<close>

theorem create_group_raises_name_error:
  "create_group self lights group_id tr = (Inl (Exn ''NameError'' ''lightGroup''), tr)"
  by (simp add: create_group_def load_global_def module_globals_def)

text \<open>
  C9. \<open>show_light_info\<close> and \<open>get_light\<close> give the same result and the same trace
  on every object, light identifier and transport. On an object with the
  authenticated URL \<open>uu\<close> each sends exactly one request, a GET of
  \<open>uu/lights/id\<close>, and each returns what the transport's answer to that request gives:
  the parsed JSON of the response when \<open>json\<close> and \<open>close\<close> succeed, and otherwise
  the exception of the request, of \<open>json\<close> or of \<open>close\<close>, whichever comes first.
\<close>

theorem show_light_info_same_as_get_light:
  "show_light_info sf self light_id tr = get_light sf self light_id tr
   \<and> (p_username_url self = Some uu \<longrightarrow>
        snd (show_light_info sf self light_id tr)
          = tr @ [Request GET (uu @ ''/lights/'' @ py_str sf light_id) (Some PNone)]
      \<and> snd (get_light sf self light_id tr)
          = tr @ [Request GET (uu @ ''/lights/'' @ py_str sf light_id) (Some PNone)]
      \<and> fst (show_light_info sf self light_id tr)
          = (case net (p_wifi self)
                    (tr @ [Request GET (uu @ ''/lights/'' @ py_str sf light_id) (Some PNone)]) of
               Inl e \<Rightarrow> Inl e
             | Inr resp \<Rightarrow>
                 (case resp_json resp of
                    Inl e \<Rightarrow> Inl e
                  | Inr parsed \<Rightarrow> (case resp_close resp of Some e \<Rightarrow> Inl e | None \<Rightarrow> Inr parsed)))
      \<and> fst (get_light sf self light_id tr)
          = (case net (p_wifi self)
                    (tr @ [Request GET (uu @ ''/lights/'' @ py_str sf light_id) (Some PNone)]) of
               Inl e \<Rightarrow> Inl e
             | Inr resp \<Rightarrow>
                 (case resp_json resp of
                    Inl e \<Rightarrow> Inl e
                  | Inr parsed \<Rightarrow> (case resp_close resp of Some e \<Rightarrow> Inl e | None \<Rightarrow> Inr parsed))))"
  by (auto simp: show_light_info_def get_light_def json_close_return_def http_get_def
      wifi_call_def Let_def split: sum.splits option.splits)

text \<open>
  Light 7 of the bridge at 10.0.0.5, on a transport that answers every request with
  the same JSON: both methods return that JSON.
\<close>

theorem show_light_info_same_as_get_light_witness:
  "p_username_url bridge_ready = Some ''http://10.0.0.5/api/abc123''
   \<and> show_light_info ex_str bridge_ready (PInt 7) [] = get_light ex_str bridge_ready (PInt 7) []
   \<and> snd (get_light ex_str bridge_ready (PInt 7) [])
       = [Request GET ''http://10.0.0.5/api/abc123/lights/7'' (Some PNone)]
   \<and> fst (get_light ex_str bridge_ready (PInt 7) [])
       = Inr (PList [PDict [(''success'', PDict [(''username'', PStr ''abc123'')])]])
   \<and> fst (show_light_info ex_str bridge_ready (PInt 7) [])
       = Inr (PList [PDict [(''success'', PDict [(''username'', PStr ''abc123'')])]])"
proof -
  have a: "p_username_url bridge_ready = Some ''http://10.0.0.5/api/abc123''"
    by (simp add: bridge_ready_def)
  have n: "net (p_wifi bridge_ready) t = Inr ex_grant" for t
    by (simp add: bridge_ready_def new_bridge_def wifi_granting_def)
  note t = show_light_info_same_as_get_light [of ex_str bridge_ready "PInt 7" "[]"
      "''http://10.0.0.5/api/abc123''"]
  from t [THEN conjunct1]
  have b: "show_light_info ex_str bridge_ready (PInt 7) [] = get_light ex_str bridge_ready (PInt 7) []" .
  from t [THEN conjunct2] a
  have c: "snd (get_light ex_str bridge_ready (PInt 7) [])
       = [Request GET ''http://10.0.0.5/api/abc123/lights/7'' (Some PNone)]"
    by (simp add: py_str_def ex_str_def)
  from t [THEN conjunct2] a
  have d: "fst (get_light ex_str bridge_ready (PInt 7) [])
       = Inr (PList [PDict [(''success'', PDict [(''username'', PStr ''abc123'')])]])"
    by (simp add: n ex_grant_def)
  from t [THEN conjunct2] a
  have e: "fst (show_light_info ex_str bridge_ready (PInt 7) [])
       = Inr (PList [PDict [(''success'', PDict [(''username'', PStr ''abc123'')])]])"
    by (simp add: n ex_grant_def)
  show ?thesis
    by (intro conjI) (rule a, rule b, rule c, rule d, rule e)
qed

text \<open>
  C7. \<open>set_scene(group_id, scene_id)\<close> leaves the trace that
  \<open>set_group(group_id, scene=scene_id)\<close> leaves; on an object with the authenticated
  URL \<open>uu\<close> its one request is a PUT of \<open>uu/groups/group_id/action\<close> with the body
  \<open>{"scene": scene_id}\<close>.
\<close>

theorem set_scene_request_is_set_group_request:
  "snd (set_scene sf self group_id scene_id tr)
     = snd (set_group sf self group_id [(''scene'', scene_id)] tr)
   \<and> (p_username_url self = Some uu \<longrightarrow>
        requests (snd (set_scene sf self group_id scene_id tr))
          = requests tr @ [Request PUT (uu @ ''/groups/'' @ py_str sf group_id @ ''/action'')
                             (Some (PDict [(''scene'', scene_id)]))])"
  by (auto simp: set_scene_def set_group_def json_close_return_def http_put_def
      wifi_call_def Let_def split: sum.splits option.splits prod.splits)

text \<open>
  Scene AB34EF5 recalled on group 7.
\<close>

theorem set_scene_request_is_set_group_request_witness:
  "p_username_url bridge_ready = Some ''http://10.0.0.5/api/abc123''
   \<and> snd (set_scene ex_str bridge_ready (PInt 7) (PStr ''AB34EF5'') [])
       = snd (set_group ex_str bridge_ready (PInt 7) [(''scene'', PStr ''AB34EF5'')] [])
   \<and> requests (snd (set_scene ex_str bridge_ready (PInt 7) (PStr ''AB34EF5'') []))
       = [Request PUT ''http://10.0.0.5/api/abc123/groups/7/action''
            (Some (PDict [(''scene'', PStr ''AB34EF5'')]))]"
proof -
  have a: "p_username_url bridge_ready = Some ''http://10.0.0.5/api/abc123''"
    by (simp add: bridge_ready_def)
  note t = set_scene_request_is_set_group_request [of ex_str bridge_ready "PInt 7"
      "PStr ''AB34EF5''" "[]" "''http://10.0.0.5/api/abc123''"]
  from t [THEN conjunct1]
  have b: "snd (set_scene ex_str bridge_ready (PInt 7) (PStr ''AB34EF5'') [])
       = snd (set_group ex_str bridge_ready (PInt 7) [(''scene'', PStr ''AB34EF5'')] [])" .
  from t [THEN conjunct2] a
  have c: "requests (snd (set_scene ex_str bridge_ready (PInt 7) (PStr ''AB34EF5'') []))
       = [Request PUT ''http://10.0.0.5/api/abc123/groups/7/action''
            (Some (PDict [(''scene'', PStr ''AB34EF5'')]))]"
    by (simp add: py_str_def ex_str_def)
  show ?thesis
    by (intro conjI) (rule a, rule b, rule c)
qed

text \<open>
  C4 (as the code has it). The module has no guard and no \<open>NotAuthenticatedError\<close>.
  On an object whose attribute \<open>_username_url\<close> was never assigned, each of
  \<open>show_light_info\<close>, \<open>get_light\<close>, \<open>get_lights\<close>, \<open>set_light\<close>, \<open>set_group\<close>,
  \<open>get_groups\<close>, \<open>set_scene\<close> and \<open>get_scenes\<close> fails with the interpreter's
  \<open>AttributeError\<close> for that attribute, and \<open>create_group\<close> fails too; none of them
  sends a request.
\<close>

theorem resource_methods_without_username_url:
  assumes "p_username_url self = None"
  shows "show_light_info sf self light_id tr = (Inl (attribute_error ''_username_url''), tr)
       \<and> get_light sf self light_id tr = (Inl (attribute_error ''_username_url''), tr)
       \<and> get_lights self tr = (Inl (attribute_error ''_username_url''), tr)
       \<and> set_light sf self light_id kwargs tr = (Inl (attribute_error ''_username_url''), tr)
       \<and> fst (set_group sf self group_id kwargs tr) = Inl (attribute_error ''_username_url'')
       \<and> requests (snd (set_group sf self group_id kwargs tr)) = requests tr
       \<and> get_groups self tr = (Inl (attribute_error ''_username_url''), tr)
       \<and> fst (set_scene sf self group_id scene_id tr) = Inl (attribute_error ''_username_url'')
       \<and> requests (snd (set_scene sf self group_id scene_id tr)) = requests tr
       \<and> get_scenes self tr = (Inl (attribute_error ''_username_url''), tr)
       \<and> raised_class (fst (create_group self lights name tr)) \<noteq> None
       \<and> snd (create_group self lights name tr) = tr"
  using assms
  by (simp add: show_light_info_def get_light_def get_lights_def set_light_def set_group_def
      get_groups_def set_scene_def get_scenes_def create_group_def Let_def
      raised_class_def split: sum.splits)

text \<open>
  The object as it is right after line 59 of the constructor.
\<close>

theorem resource_methods_without_username_url_witness:
  "p_username_url (new_bridge wifi_granting) = None
   \<and> get_lights (new_bridge wifi_granting) [] = (Inl (Exn ''AttributeError'' ''_username_url''), [])
   \<and> set_light ex_str (new_bridge wifi_granting) (PInt 5) [(''on'', PBool True)] []
       = (Inl (Exn ''AttributeError'' ''_username_url''), [])
   \<and> requests (snd (set_group ex_str (new_bridge wifi_granting) (PInt 1) [(''on'', PBool True)] [])) = []"
proof -
  have a: "p_username_url (new_bridge wifi_granting) = None"
    by (simp add: new_bridge_def)
  from resource_methods_without_username_url [OF a, of ex_str "PInt 5" "[]"
      "[(''on'', PBool True)]" "PInt 1"] a
  show ?thesis by (simp add: attribute_error_def)
qed

text \<open>
  C4 as stated names the error \<open>NotAuthenticatedError\<close>. The exception \<open>get_lights\<close>
  raises on an object without authenticated URL is an \<open>AttributeError\<close>. And on the
  object \<open>Bridge(wifi, '10.0.0.5', '')\<close>, whose username is empty, \<open>get_lights\<close> raises
  nothing: it sends its request and returns what the transport answers.
\<close>

theorem not_authenticated_error_counterexample:
  "p_username_url (new_bridge wifi_granting) = None
   \<and> raised_class (fst (get_lights (new_bridge wifi_granting) [])) = Some ''AttributeError''
   \<and> raised_class (fst (get_lights (new_bridge wifi_granting) [])) \<noteq> Some ''NotAuthenticatedError''
   \<and> get_lights bridge_empty_username []
       = (Inr (PList [PDict [(''success'', PDict [(''username'', PStr ''abc123'')])]]),
          [Request GET ''http://10.0.0.5/api//lights'' (Some PNone)])"
  by (simp add: get_lights_def new_bridge_def attribute_error_def raised_class_def
      bridge_empty_username_def json_close_return_def http_get_def wifi_call_def
      wifi_granting_def ex_grant_def)

section \<open>The states of an object\<close>

text \<open>
  The loop takes a username only from a grant: the conditions under which the code
  reaches the assignment of line 103 make the response a grant of the value it reads.
\<close>

lemma granted_from_reads:
  assumes "resp_json resp1 = Inr body" and "py_getitem_0 body = Inr json"
    and "py_getitem_key json ''success'' = Inr success"
    and "py_getitem_key success ''username'' = Inr u"
  shows "pairing_granted u (Inr resp1)"
proof -
  from assms(3) obtain d where j: "json = PDict d" and ds: "map_of d ''success'' = Some success"
    by (cases json) (auto split: option.splits)
  from assms(4) obtain s where sc: "success = PDict s" and su: "map_of s ''username'' = Some u"
    by (cases success) (auto split: option.splits)
  from assms(2) j obtain rest where b: "body = PList (PDict d # rest)"
    by (cases body rule: py_getitem_0.cases) auto
  from assms(1) b ds sc su show ?thesis
    by (simp add: pairing_granted_def)
qed

text \<open>One round of the loop, seen from its result.\<close>

lemma loop_round_cases:
  assumes run: "register_loop sf url data PNone n resp self tr = (r, self', tr')" and pos: "0 < n"
  shows "(self' = self \<and> tr' = tr @ [Request POST url (Some data)])
       \<or> (\<exists>resp1. register_loop sf url data PNone (n - 1) resp1 self
                      (tr @ [Request POST url (Some data), Sleep 1]) = (r, self', tr'))
       \<or> (\<exists>u. pairing_granted u (net (p_wifi self) (tr @ [Request POST url (Some data)]))
              \<and> self' = self\<lparr>p_username_url := Some (url @ ''/'' @ py_str sf u)\<rparr>
              \<and> tr' = tr @ [Request POST url (Some data), Sleep 1])"
proof -
  let ?t1 = "tr @ [Request POST url (Some data)]"
  show ?thesis
  proof (cases "net (p_wifi self) ?t1")
    case (Inl e)
    with run pos show ?thesis
      by (subst (asm) register_loop.simps) (simp add: http_post_def wifi_call_def Let_def)
  next
    case (Inr resp1)
    show ?thesis
    proof (cases "resp_json resp1")
      case (Inl e)
      with run pos \<open>net (p_wifi self) ?t1 = Inr resp1\<close> show ?thesis
        by (subst (asm) register_loop.simps) (simp add: http_post_def wifi_call_def Let_def)
    next
      case body: (Inr body)
      show ?thesis
      proof (cases "py_getitem_0 body")
        case (Inl e)
        with run pos Inr body show ?thesis
          by (subst (asm) register_loop.simps) (simp add: http_post_def wifi_call_def Let_def)
      next
        case json: (Inr json)
        show ?thesis
        proof (cases "py_dict_get json ''success''")
          case (Inl e)
          with run pos Inr body json show ?thesis
            by (subst (asm) register_loop.simps) (simp add: http_post_def wifi_call_def Let_def)
        next
          case flag: (Inr flag)
          show ?thesis
          proof (cases "py_truthy flag")
            case False
            with run pos Inr body json flag
            have "register_loop sf url data PNone (n - 1) resp1 self
                      (tr @ [Request POST url (Some data), Sleep 1]) = (r, self', tr')"
              by (subst (asm) register_loop.simps) (simp add: http_post_def wifi_call_def Let_def)
            then show ?thesis by blast
          next
            case True
            show ?thesis
            proof (cases "py_getitem_key json ''success''")
              case (Inl e)
              with run pos Inr body json flag True show ?thesis
                by (subst (asm) register_loop.simps) (simp add: http_post_def wifi_call_def Let_def)
            next
              case success: (Inr success)
              show ?thesis
              proof (cases "py_getitem_key success ''username''")
                case (Inl e)
                with run pos Inr body json flag True success show ?thesis
                  by (subst (asm) register_loop.simps)
                     (simp add: http_post_def wifi_call_def Let_def)
              next
                case u: (Inr u)
                from granted_from_reads [OF body json success u] Inr
                have g: "pairing_granted u (net (p_wifi self) ?t1)" by simp
                from run pos Inr body json flag True success u
                have "register_loop sf url data (PStr (py_str sf u)) (n - 1) resp1
                        (self\<lparr>p_username_url := Some (url @ ''/'' @ py_str sf u)\<rparr>)
                        (tr @ [Request POST url (Some data), Sleep 1]) = (r, self', tr')"
                  by (subst (asm) register_loop.simps)
                     (simp add: http_post_def wifi_call_def Let_def)
                then have "self' = self\<lparr>p_username_url := Some (url @ ''/'' @ py_str sf u)\<rparr>
                    \<and> tr' = tr @ [Request POST url (Some data), Sleep 1]"
                  by (simp add: loop_exit)
                with g show ?thesis by blast
              qed
            qed
          qed
        qed
      qed
    qed
  qed
qed

text \<open>
  The loop assigns at most the authenticated URL, and then from a grant that
  answered one of its requests.
\<close>

lemma register_loop_self:
  "register_loop sf url data PNone n resp self tr = (r, self', tr') \<Longrightarrow>
   (\<exists>x. tr' = tr @ x)
   \<and> (self' = self
      \<or> (\<exists>u a b. tr' = tr @ a @ [Request POST url (Some data)] @ b
             \<and> pairing_granted u (net (p_wifi self) (tr @ a @ [Request POST url (Some data)]))
             \<and> self' = self\<lparr>p_username_url := Some (url @ ''/'' @ py_str sf u)\<rparr>))"
proof (induction "nat n" arbitrary: n resp tr rule: less_induct)
  case less
  let ?p = "Request POST url (Some data)"
  show ?case
  proof (cases "0 < n")
    case False
    with less.prems show ?thesis by (simp add: loop_exit)
  next
    case True
    from loop_round_cases [OF less.prems True]
    consider (raised) "self' = self" "tr' = tr @ [?p]"
      | (again) resp1 where
          "register_loop sf url data PNone (n - 1) resp1 self (tr @ [?p, Sleep 1]) = (r, self', tr')"
      | (granted) u where "pairing_granted u (net (p_wifi self) (tr @ [?p]))"
          "self' = self\<lparr>p_username_url := Some (url @ ''/'' @ py_str sf u)\<rparr>"
          "tr' = tr @ [?p, Sleep 1]"
      by blast
    then show ?thesis
    proof cases
      case raised
      then show ?thesis by simp
    next
      case again
      from True have "nat (n - 1) < nat n" by simp
      from less.hyps [OF this again]
      have x: "\<exists>x. tr' = (tr @ [?p, Sleep 1]) @ x"
        and s: "self' = self
          \<or> (\<exists>u a b. tr' = (tr @ [?p, Sleep 1]) @ a @ [?p] @ b
                \<and> pairing_granted u (net (p_wifi self) ((tr @ [?p, Sleep 1]) @ a @ [?p]))
                \<and> self' = self\<lparr>p_username_url := Some (url @ ''/'' @ py_str sf u)\<rparr>)"
        by blast+
      from x have x': "\<exists>x. tr' = tr @ x" by auto
      from s show ?thesis
      proof
        assume "self' = self"
        with x' show ?thesis by simp
      next
        assume "\<exists>u a b. tr' = (tr @ [?p, Sleep 1]) @ a @ [?p] @ b
                \<and> pairing_granted u (net (p_wifi self) ((tr @ [?p, Sleep 1]) @ a @ [?p]))
                \<and> self' = self\<lparr>p_username_url := Some (url @ ''/'' @ py_str sf u)\<rparr>"
        then obtain u a b where
          t: "tr' = (tr @ [?p, Sleep 1]) @ a @ [?p] @ b" and
          g: "pairing_granted u (net (p_wifi self) ((tr @ [?p, Sleep 1]) @ a @ [?p]))" and
          e: "self' = self\<lparr>p_username_url := Some (url @ ''/'' @ py_str sf u)\<rparr>"
          by blast
        have "tr' = tr @ ([?p, Sleep 1] @ a) @ [?p] @ b" using t by simp
        moreover have "pairing_granted u (net (p_wifi self) (tr @ ([?p, Sleep 1] @ a) @ [?p]))"
          using g by simp
        ultimately show ?thesis using x' e by blast
      qed
    next
      case granted
      have "tr' = tr @ [] @ [?p] @ [Sleep 1]" using granted(3) by simp
      moreover have "pairing_granted u (net (p_wifi self) (tr @ [] @ [?p]))"
        using granted(1) by simp
      ultimately show ?thesis using granted(2) by blast
    qed
  qed
qed

text \<open>
  \<open>register_username\<close> assigns at most the base URL and the authenticated URL, the
  latter from a grant received during the call; \<open>discover_bridge\<close> assigns neither.
\<close>

lemma register_username_self:
  assumes "register_username sf rnd b tr = (r, b', tr')"
  shows "b' = b
       \<or> (\<exists>ip. p_bridge_ip b = Some ip
            \<and> (b' = b\<lparr>p_bridge_url := Some (api_url sf ip)\<rparr>
               \<or> (\<exists>u\<in>granted_during sf (p_wifi b) tr tr'.
                     b' = b\<lparr>p_bridge_url := Some (api_url sf ip),
                              p_username_url := Some (api_url sf ip @ ''/'' @ u)\<rparr>)))"
proof (cases "p_bridge_ip b")
  case None
  with assms show ?thesis by (simp add: register_username_def)
next
  case (Some ip)
  let ?url = "api_url sf ip"
  let ?b1 = "b\<lparr>p_bridge_url := Some ?url\<rparr>"
  let ?p = "Request POST ?url (Some (pairing_body sf rnd))"
  have post: "http_post ?b1 ?url (pairing_body sf rnd) tr = (net (p_wifi b) (tr @ [?p]), tr @ [?p])"
    by (simp add: http_post_def wifi_call_def Let_def)
  show ?thesis
  proof (cases "net (p_wifi b) (tr @ [?p])")
    case (Inl e)
    with assms Some post show ?thesis
      by (auto simp: register_username_def Let_def)
  next
    case (Inr resp)
    obtain q b2 tr2 where
      l: "register_loop sf ?url (pairing_body sf rnd) PNone 30 resp ?b1 (tr @ [?p]) = (q, b2, tr2)"
      by (cases "register_loop sf ?url (pairing_body sf rnd) PNone 30 resp ?b1 (tr @ [?p])") auto
    from assms Some post Inr l have e: "b' = b2" "tr' = tr2"
      by (auto simp: register_username_def Let_def split: sum.splits option.splits)
    from register_loop_self [OF l]
    have "b2 = ?b1
      \<or> (\<exists>u a c. tr2 = (tr @ [?p]) @ a @ [?p] @ c
             \<and> pairing_granted u (net (p_wifi ?b1) ((tr @ [?p]) @ a @ [?p]))
             \<and> b2 = ?b1\<lparr>p_username_url := Some (?url @ ''/'' @ py_str sf u)\<rparr>)"
      by blast
    then show ?thesis
    proof
      assume "b2 = ?b1"
      with e Some show ?thesis by simp
    next
      assume "\<exists>u a c. tr2 = (tr @ [?p]) @ a @ [?p] @ c
             \<and> pairing_granted u (net (p_wifi ?b1) ((tr @ [?p]) @ a @ [?p]))
             \<and> b2 = ?b1\<lparr>p_username_url := Some (?url @ ''/'' @ py_str sf u)\<rparr>"
      then obtain u a c where
        t: "tr2 = (tr @ [?p]) @ a @ [?p] @ c" and
        g: "pairing_granted u (net (p_wifi ?b1) ((tr @ [?p]) @ a @ [?p]))" and
        s: "b2 = ?b1\<lparr>p_username_url := Some (?url @ ''/'' @ py_str sf u)\<rparr>"
        by blast
      have "tr' = tr @ ([?p] @ a) @ [?p] @ c" using t e by simp
      moreover have "pairing_granted u (net (p_wifi b) (tr @ ([?p] @ a) @ [?p]))" using g by simp
      ultimately have "py_str sf u \<in> granted_during sf (p_wifi b) tr tr'"
        unfolding granted_during_def by blast
      with s e Some show ?thesis by auto
    qed
  qed
qed

lemma discover_bridge_self:
  "discover_bridge sf b tr = (r, b', tr') \<Longrightarrow>
   p_username_url b' = p_username_url b \<and> p_bridge_url b' = p_bridge_url b
   \<and> p_bridge_ip b' = p_bridge_ip b"
  by (auto simp: discover_bridge_def split: prod.splits sum.splits)

text \<open>A constructor call that returns an object was given a string as username.\<close>

lemma Bridge_init_success:
  "Bridge_init sf rnd w ip un tr = (Inr b, tr') \<Longrightarrow>
   \<exists>u. un = PStr u \<and> p_bridge_url b = Some (api_url sf ip)
     \<and> p_username_url b = Some (api_url sf ip @ ''/'' @ u) \<and> p_bridge_ip b = None"
  by (auto simp: Bridge_init_def Let_def new_bridge_def
      split: if_splits pyval.splits prod.splits sum.splits)

lemma reachable_invariant:
  "reachable sf U b \<Longrightarrow>
   (\<forall>uu. p_username_url b = Some uu \<longrightarrow>
      (\<exists>base u. p_bridge_url b = Some base \<and> uu = base @ ''/'' @ u \<and> u \<in> U))
   \<and> (\<forall>ip base. p_bridge_ip b = Some ip \<longrightarrow> p_bridge_url b = Some base \<longrightarrow> base = api_url sf ip)"
proof (induction rule: reachable.induct)
  case (constructed rnd w ip un tr b tr')
  from Bridge_init_success [OF constructed] show ?case by (auto simp: provided_def)
next
  case (entered w)
  show ?case by (simp add: new_bridge_def)
next
  case (discovered U b tr r b' tr')
  from discover_bridge_self [OF discovered.hyps(2)] discovered.IH show ?case by simp
next
  case (line_66 w tr ip b' tr')
  from discover_bridge_self [OF line_66(2)] show ?case by (simp add: new_bridge_def)
next
  case (registered U b rnd tr r b' tr')
  from register_username_self [OF registered.hyps(2)] registered.IH show ?case
    by (elim disjE exE conjE bexE) auto
next
  case (line_67 U b rnd tr name b' tr')
  from register_username_self [OF line_67.hyps(2)] line_67.IH show ?case
    by (elim disjE exE conjE bexE) auto
qed

text \<open>
  C8 (as the code has it). Every reachable state of an object comes with the set \<open>U\<close>
  of usernames obtained on the way to it: the string given to the constructor (never
  \<open>None\<close>, which the constructor does not take as a username), and \<open>str\<close> of each
  \<open>success.username\<close> a pairing response granted during a call of
  \<open>register_username\<close>. In every such state in which the authenticated URL is set,
  the base URL is set too and the authenticated URL is the base URL, a \<open>/\<close> and one
  of the usernames of \<open>U\<close>. That username may be the empty string: the constructor
  only tests it against \<open>None\<close>.
\<close>

theorem authenticated_url_extends_base_url:
  assumes "reachable sf U b" and "p_username_url b = Some uu"
  shows "\<exists>base u. p_bridge_url b = Some base \<and> uu = base @ ''/'' @ u \<and> u \<in> U"
  using reachable_invariant [OF assms(1)] assms(2) by blast

lemma bridge_ready_constructed:
  "Bridge_init ex_str 7 wifi_granting (PStr ''10.0.0.5'') (PStr ''abc123'') [] = (Inr bridge_ready, [])"
  by (simp add: Bridge_init_def accepts_wifi_def wifi_granting_def Let_def api_url_def py_str_def
      bridge_ready_def)

lemma bridge_empty_username_constructed:
  "Bridge_init ex_str 7 wifi_granting (PStr ''10.0.0.5'') (PStr []) [] = (Inr bridge_empty_username, [])"
  by (simp add: Bridge_init_def accepts_wifi_def wifi_granting_def Let_def api_url_def py_str_def
      bridge_empty_username_def)

text \<open>The run of \<open>Bridge(wifi)\<close> on the home network up to the return of line 67.\<close>

lemma bridge_home_discovered:
  "discover_bridge ex_str (new_bridge wifi_home) []
     = (Inr (PStr ''10.0.0.5''),
        (new_bridge wifi_home)\<lparr>p_ip := Some (PStr ''10.0.0.5''),
           bridge_url := Some ''http://10.0.0.5/api''\<rparr>,
        [Request GET discovery_url None])"
  by (simp add: discover_bridge_def discover_try_def wifi_call_def Let_def new_bridge_def
      wifi_home_def api_url_def py_str_def)

lemma bridge_home_registered:
  "register_username ex_str 7
     ((new_bridge wifi_home)\<lparr>p_ip := Some (PStr ''10.0.0.5''),
         bridge_url := Some ''http://10.0.0.5/api'', p_bridge_ip := Some (PStr ''10.0.0.5'')\<rparr>)
     [Request GET discovery_url None]
   = (Inr (PStr ''abc123''), bridge_home, trace_home)"
proof -
  let ?b = "(new_bridge wifi_home)\<lparr>p_ip := Some (PStr ''10.0.0.5''),
         bridge_url := Some ''http://10.0.0.5/api'', p_bridge_ip := Some (PStr ''10.0.0.5''),
         p_bridge_url := Some ''http://10.0.0.5/api''\<rparr>"
  let ?g = "Request GET discovery_url None"
  let ?p = "Request POST ''http://10.0.0.5/api'' (Some (pairing_body ex_str 7))"
  have n: "net (p_wifi ?b) ([?g, ?p] @ [?p]) = Inr ex_grant"
    by (simp add: new_bridge_def wifi_home_def)
  have g: "pairing_granted (PStr ''abc123'') (Inr ex_grant)"
    by (simp add: pairing_granted_def ex_grant_def)
  from loop_granted_step [of 30 ?b "[?g, ?p]" "''http://10.0.0.5/api''" "pairing_body ex_str 7"
      ex_grant "PStr ''abc123''" ex_str, OF _ n g]
  have l: "register_loop ex_str ''http://10.0.0.5/api'' (pairing_body ex_str 7) PNone 30 resp ?b [?g, ?p]
        = (Inr (PStr ''abc123'', ex_grant),
           ?b\<lparr>p_username_url := Some ''http://10.0.0.5/api/abc123''\<rparr>,
           [?g, ?p, ?p, Sleep 1])" for resp
    by (simp add: py_str_def)
  have pw: "p_wifi (new_bridge wifi_home) = wifi_home"
    by (simp add: new_bridge_def)
  have nh: "net wifi_home [?g, ?p] = Inr ex_grant"
    by (simp add: wifi_home_def)
  have c: "resp_close ex_grant = None"
    by (simp add: ex_grant_def)
  show ?thesis
    by (simp add: register_username_def Let_def http_post_def wifi_call_def api_url_def py_str_def
        pw nh l c bridge_home_def trace_home_def pairing_post_def)
qed

text \<open>
  The object \<open>Bridge(wifi, '10.0.0.5', 'abc123')\<close>, and the object a registration
  on the home network leaves behind.
\<close>

theorem authenticated_url_extends_base_url_witness:
  "reachable ex_str {''abc123''} bridge_ready
   \<and> p_username_url bridge_ready = Some ''http://10.0.0.5/api/abc123''
   \<and> (\<exists>base u. p_bridge_url bridge_ready = Some base
         \<and> ''http://10.0.0.5/api/abc123'' = base @ ''/'' @ u \<and> u \<in> {''abc123''})
   \<and> reachable ex_str
         (granted_during ex_str wifi_home [Request GET discovery_url None] trace_home) bridge_home
   \<and> p_username_url bridge_home = Some ''http://10.0.0.5/api/abc123''
   \<and> (\<exists>base u. p_bridge_url bridge_home = Some base
         \<and> ''http://10.0.0.5/api/abc123'' = base @ ''/'' @ u
         \<and> u \<in> granted_during ex_str wifi_home [Request GET discovery_url None] trace_home)
   \<and> ''abc123'' \<in> granted_during ex_str wifi_home [Request GET discovery_url None] trace_home"
proof -
  have w: "accepts_wifi wifi_home"
    by (simp add: accepts_wifi_def wifi_home_def)
  have "reachable ex_str
          ({} \<union> granted_during ex_str
             (p_wifi ((new_bridge wifi_home)\<lparr>p_ip := Some (PStr ''10.0.0.5''),
                bridge_url := Some ''http://10.0.0.5/api'', p_bridge_ip := Some (PStr ''10.0.0.5'')\<rparr>))
             [Request GET discovery_url None] trace_home)
          bridge_home"
    by (rule reachable.registered [OF reachable.line_66 [OF w bridge_home_discovered]
          bridge_home_registered])
  then have c: "reachable ex_str
         (granted_during ex_str wifi_home [Request GET discovery_url None] trace_home) bridge_home"
    by (simp add: new_bridge_def)
  have d: "p_username_url bridge_home = Some ''http://10.0.0.5/api/abc123''"
    by (simp add: bridge_home_def)
  have "reachable ex_str (provided (PStr ''abc123'')) bridge_ready"
    by (rule reachable.constructed [OF bridge_ready_constructed])
  then have a: "reachable ex_str {''abc123''} bridge_ready"
    by (simp add: provided_def)
  have b: "p_username_url bridge_ready = Some ''http://10.0.0.5/api/abc123''"
    by (simp add: bridge_ready_def)
  from authenticated_url_extends_base_url [OF c d] obtain base u where
    e: "p_bridge_url bridge_home = Some base" and
    f: "''http://10.0.0.5/api/abc123'' = base @ ''/'' @ u" and
    g: "u \<in> granted_during ex_str wifi_home [Request GET discovery_url None] trace_home"
    by blast
  from e have "base = ''http://10.0.0.5/api''"
    by (simp add: bridge_home_def)
  with f have "u = ''abc123''" by simp
  with g have h: "''abc123'' \<in> granted_during ex_str wifi_home [Request GET discovery_url None] trace_home"
    by simp
  from authenticated_url_extends_base_url [OF a b] e f g h a b c d
  show ?thesis by blast
qed

text \<open>
  C8 as stated excludes an authenticated URL with an empty username. The call
  \<open>Bridge(wifi, '10.0.0.5', '')\<close> returns an object whose authenticated URL is the
  base URL and a \<open>/\<close>, with nothing after it; the one username obtained is the empty
  string.
\<close>

theorem empty_username_counterexample:
  "Bridge_init ex_str 7 wifi_granting (PStr ''10.0.0.5'') (PStr []) [] = (Inr bridge_empty_username, [])
   \<and> reachable ex_str {[]} bridge_empty_username
   \<and> p_bridge_url bridge_empty_username = Some ''http://10.0.0.5/api''
   \<and> p_username_url bridge_empty_username = Some (''http://10.0.0.5/api'' @ ''/'' @ [])"
proof -
  have "reachable ex_str (provided (PStr [])) bridge_empty_username"
    by (rule reachable.constructed [OF bridge_empty_username_constructed])
  then have "reachable ex_str {[]} bridge_empty_username"
    by (simp add: provided_def)
  then show ?thesis
    using bridge_empty_username_constructed by (simp add: bridge_empty_username_def)
qed

end
